theory Spec2Isabelle
  imports Complex_Main
begin

section \<open>Python failures as values\<close>

text \<open>
  Every \<^verbatim>\<open>raise\<close> of the sources, and every failure of the Python runtime the sources
  can run into (a call with the wrong number of arguments, an attribute or a local that
  was never assigned, an index out of range), is a value of \<open>py_error\<close>; a function that
  can fail returns \<open>py_error + 'a\<close> with \<open>Inl\<close> the failure.  \<open>NonFinite\<close> stands for the
  places where numpy does not raise but produces \<^verbatim>\<open>nan\<close> or \<^verbatim>\<open>inf\<close> (a division by a
  zero norm): the reals of the model have no such values.
\<close>

datatype py_error =
    NotImplementedError
  | ValueError
  | TypeError
  | IndexError
  | NameError string
  | UnboundLocalError string
  | AttributeError string
  | ZeroDivisionError
  | NonFinite

definition then_do :: "py_error + 'a \<Rightarrow> ('a \<Rightarrow> py_error + 'b) \<Rightarrow> py_error + 'b" where
  "then_do r f = (case r of Inl e \<Rightarrow> Inl e | Inr v \<Rightarrow> f v)"

text \<open>
  A Python method is called with the arguments the call site gives; when their number is
  not the number of formal parameters after \<^verbatim>\<open>self\<close>, the call raises \<^verbatim>\<open>TypeError\<close>
  before the body runs.
\<close>

datatype 'v py_method =
    Method1 "'v \<Rightarrow> py_error + 'v"
  | Method2 "'v \<Rightarrow> 'v \<Rightarrow> py_error + 'v"

fun call1 :: "'v py_method \<Rightarrow> 'v \<Rightarrow> py_error + 'v" where
  "call1 (Method1 f) x = f x"
| "call1 (Method2 f) x = Inl TypeError"

section \<open>pisap/numerics/gradient.py\<close>

text \<open>
  Arrays are an abstract type \<open>'v\<close>: \<open>-\<close> and \<open>*\<close> are numpy's elementwise operators and
  \<open>x /\<^sub>R r\<close> the division of an array by a float.  The Fourier operator and the linear
  (sparsifying) operator are objects the constructors receive; only their \<^verbatim>\<open>op\<close>,
  \<^verbatim>\<open>adj_op\<close> and \<^verbatim>\<open>img_size\<close> are used.
\<close>

record 'v fourier =
  ft_op :: "'v \<Rightarrow> 'v"
  ft_adj_op :: "'v \<Rightarrow> 'v"
  img_size :: nat

record 'v linear =
  lin_op :: "'v \<Rightarrow> 'v"
  lin_adj_op :: "'v \<Rightarrow> 'v"

text \<open>
  What the module takes from outside \<^verbatim>\<open>src/\<close>: \<^verbatim>\<open>generic_l2_norm\<close> of
  \<^verbatim>\<open>pisap.base.utils\<close>, and the draws of \<^verbatim>\<open>np.random.random\<close> (for an image of a given
  size, and for the coefficients of a transform of the zero image).
\<close>

record 'v numerics =
  generic_l2_norm :: "'v \<Rightarrow> real"
  random_image :: "nat \<Rightarrow> 'v"
  zeros_image :: "nat \<Rightarrow> 'v"
  random_data_like :: "'v \<Rightarrow> 'v"

text \<open>
  The attributes of a gradient object.  An attribute that has not been assigned yet is
  \<open>None\<close>: \<^verbatim>\<open>linear_cls\<close> is never assigned by \<^verbatim>\<open>Grad2DAnalysis.__init__\<close>, and
  \<^verbatim>\<open>grad\<close> only by \<^verbatim>\<open>get_grad\<close>.
\<close>

record 'v grad_obj =
  y :: 'v
  analysis :: bool
  ft_cls :: "'v fourier"
  linear_cls :: "'v linear option"
  spec_rad :: "real option"
  inv_spec_rad :: "real option"
  grad :: "'v option"

subsection \<open>GradBase\<close>

text \<open>
  \<^verbatim>\<open>get_initial_x\<close>, \<^verbatim>\<open>MX\<close> and \<^verbatim>\<open>MtX\<close> of \<^verbatim>\<open>GradBase\<close> raise; the subclasses override
  them.  The inherited methods \<^verbatim>\<open>MtMX\<close>, \<^verbatim>\<open>get_spec_rad\<close> and \<^verbatim>\<open>get_grad\<close> take the
  overriding methods, bound to \<^verbatim>\<open>self\<close>, as arguments.
\<close>

definition GradBase_get_initial_x :: "py_error + 'v" where
  "GradBase_get_initial_x = Inl NotImplementedError"

definition GradBase_MX :: "'v py_method" where
  "GradBase_MX = Method1 (\<lambda>x. Inl NotImplementedError)"

definition GradBase_MtX :: "'v py_method" where
  "GradBase_MtX = Method1 (\<lambda>x. Inl NotImplementedError)"

definition MtMX :: "'v py_method \<Rightarrow> 'v py_method \<Rightarrow> 'v \<Rightarrow> py_error + 'v" where
  "MtMX mx mtx x = then_do (call1 mx x) (call1 mtx)"

text \<open>
  The loop of \<^verbatim>\<open>get_spec_rad\<close>, on the number of iterations left.  \<^verbatim>\<open>x_new\<close> is a
  local that is unbound until the body has run once.
\<close>

fun power_loop ::
  "('v::real_vector \<Rightarrow> py_error + 'v) \<Rightarrow> ('v \<Rightarrow> real) \<Rightarrow> real \<Rightarrow> nat \<Rightarrow> 'v \<Rightarrow> 'v option
    \<Rightarrow> py_error + 'v option" where
  "power_loop mtmx l2 tolerance 0 x_old x_new = Inr x_new"
| "power_loop mtmx l2 tolerance (Suc n) x_old x_new =
     then_do (mtmx x_old) (\<lambda>m.
       if l2 x_old = 0 then Inl NonFinite
       else let x_new' = m /\<^sub>R l2 x_old in
         if \<bar>l2 x_new' - l2 x_old\<bar> < tolerance then Inr (Some x_new')
         else power_loop mtmx l2 tolerance n x_new' (Some x_new'))"

definition get_spec_rad ::
  "'v numerics \<Rightarrow> (py_error + 'v) \<Rightarrow> 'v py_method \<Rightarrow> 'v py_method \<Rightarrow> 'v::real_vector grad_obj
    \<Rightarrow> real \<Rightarrow> nat \<Rightarrow> real \<Rightarrow> py_error + 'v grad_obj" where
  "get_spec_rad np get_initial_x mx mtx self tolerance max_iter coef_mul =
     then_do get_initial_x (\<lambda>x_old.
     then_do (power_loop (MtMX mx mtx) (generic_l2_norm np) tolerance max_iter x_old None)
       (\<lambda>r. case r of
          None \<Rightarrow> Inl (UnboundLocalError ''x_new'')
        | Some x_new \<Rightarrow>
            let sr = coef_mul * generic_l2_norm np x_new in
            if sr = 0 then Inl NonFinite
            else Inr (self\<lparr>spec_rad := Some sr, inv_spec_rad := Some (1 / sr)\<rparr>)))"

definition get_grad ::
  "'v py_method \<Rightarrow> 'v py_method \<Rightarrow> 'v::minus grad_obj \<Rightarrow> 'v \<Rightarrow> py_error + 'v grad_obj" where
  "get_grad mx mtx self x =
     then_do (call1 mx x) (\<lambda>m.
     then_do (call1 mtx (m - y self)) (\<lambda>g.
       Inr (self\<lparr>grad := Some g\<rparr>)))"

subsection \<open>Grad2DAnalysis and Grad2DSynthesis\<close>

text \<open>
  The argument \<^verbatim>\<open>ft_cls\<close> of the constructors is either a Fourier operator or a \<^verbatim>\<open>dict\<close>
  from a class to the keyword arguments of its constructor.  The dict is the list of its
  items (\<^verbatim>\<open>len\<close> is the length, \<^verbatim>\<open>keys()[0]\<close> and \<^verbatim>\<open>values()[0]\<close> the first item);
  \<open>instantiate k kw\<close> is the call \<^verbatim>\<open>k(**kw)\<close>, which may raise.
\<close>

datatype ('c, 'p, 'v) ft_arg =
    FtDict "('c \<times> 'p) list"
  | FtObj "'v fourier"

definition Grad2DAnalysis_get_initial_x :: "'v numerics \<Rightarrow> 'v grad_obj \<Rightarrow> py_error + 'v" where
  "Grad2DAnalysis_get_initial_x np self = Inr (random_image np (img_size (ft_cls self)))"

definition Grad2DAnalysis_MX :: "'v grad_obj \<Rightarrow> 'v py_method" where
  "Grad2DAnalysis_MX self = Method1 (\<lambda>x. Inr (ft_op (ft_cls self) x))"

definition Grad2DAnalysis_MtX :: "'v grad_obj \<Rightarrow> 'v py_method" where
  "Grad2DAnalysis_MtX self = Method1 (\<lambda>x. Inr (ft_adj_op (ft_cls self) x))"

definition Grad2DAnalysis_get_spec_rad ::
  "'v numerics \<Rightarrow> 'v::real_vector grad_obj \<Rightarrow> real \<Rightarrow> nat \<Rightarrow> real \<Rightarrow> py_error + 'v grad_obj" where
  "Grad2DAnalysis_get_spec_rad np self =
     get_spec_rad np (Grad2DAnalysis_get_initial_x np self)
       (Grad2DAnalysis_MX self) (Grad2DAnalysis_MtX self) self"

definition Grad2DAnalysis_get_grad ::
  "'v::minus grad_obj \<Rightarrow> 'v \<Rightarrow> py_error + 'v grad_obj" where
  "Grad2DAnalysis_get_grad self = get_grad (Grad2DAnalysis_MX self) (Grad2DAnalysis_MtX self) self"

text \<open>The defaults of \<^verbatim>\<open>get_spec_rad\<close>: \<^verbatim>\<open>tolerance=1e-4, max_iter=20, coef_mul=1.1\<close>.\<close>

definition Grad2DAnalysis_init ::
  "'v numerics \<Rightarrow> ('c \<Rightarrow> 'p \<Rightarrow> py_error + 'v fourier) \<Rightarrow> 'v::real_vector \<Rightarrow> ('c, 'p, 'v) ft_arg
    \<Rightarrow> py_error + 'v grad_obj" where
  "Grad2DAnalysis_init np instantiate data ft =
     then_do
       (case ft of
          FtDict items \<Rightarrow>
            if length items > 1 then Inl ValueError
            else (case items of [] \<Rightarrow> Inl IndexError | (k, kw) # _ \<Rightarrow> instantiate k kw)
        | FtObj f \<Rightarrow> Inr f)
       (\<lambda>f. Grad2DAnalysis_get_spec_rad np
          \<lparr>y = data, analysis = True, ft_cls = f, linear_cls = None,
           spec_rad = None, inv_spec_rad = None, grad = None\<rparr>
          (1 / 10000) 20 (11 / 10))"

definition Grad2DSynthesis_get_initial_x :: "'v numerics \<Rightarrow> 'v grad_obj \<Rightarrow> py_error + 'v" where
  "Grad2DSynthesis_get_initial_x np self =
     (case linear_cls self of
        None \<Rightarrow> Inl (AttributeError ''linear_cls'')
      | Some l \<Rightarrow>
          Inr (random_data_like np (lin_op l (zeros_image np (img_size (ft_cls self))))))"

definition Grad2DSynthesis_MX :: "'v grad_obj \<Rightarrow> 'v py_method" where
  "Grad2DSynthesis_MX self = Method1 (\<lambda>alpha.
     case linear_cls self of
       None \<Rightarrow> Inl (AttributeError ''linear_cls'')
     | Some l \<Rightarrow> Inr (ft_op (ft_cls self) (lin_adj_op l alpha)))"

definition Grad2DSynthesis_MtX :: "'v grad_obj \<Rightarrow> 'v py_method" where
  "Grad2DSynthesis_MtX self = Method1 (\<lambda>x.
     case linear_cls self of
       None \<Rightarrow> Inl (AttributeError ''linear_cls'')
     | Some l \<Rightarrow> Inr (lin_op l (ft_adj_op (ft_cls self) x)))"

definition Grad2DSynthesis_get_spec_rad ::
  "'v numerics \<Rightarrow> 'v::real_vector grad_obj \<Rightarrow> real \<Rightarrow> nat \<Rightarrow> real \<Rightarrow> py_error + 'v grad_obj" where
  "Grad2DSynthesis_get_spec_rad np self =
     get_spec_rad np (Grad2DSynthesis_get_initial_x np self)
       (Grad2DSynthesis_MX self) (Grad2DSynthesis_MtX self) self"

definition Grad2DSynthesis_get_grad ::
  "'v::minus grad_obj \<Rightarrow> 'v \<Rightarrow> py_error + 'v grad_obj" where
  "Grad2DSynthesis_get_grad self =
     get_grad (Grad2DSynthesis_MX self) (Grad2DSynthesis_MtX self) self"

text \<open>
  \<^verbatim>\<open>Grad2DSynthesis.__init__\<close> raises through the name \<^verbatim>\<open>valueerror\<close>, which nothing
  defines: evaluating it is a \<^verbatim>\<open>NameError\<close>.
\<close>

definition Grad2DSynthesis_init ::
  "'v numerics \<Rightarrow> ('c \<Rightarrow> 'p \<Rightarrow> py_error + 'v fourier) \<Rightarrow> 'v::real_vector \<Rightarrow> ('c, 'p, 'v) ft_arg
    \<Rightarrow> 'v linear \<Rightarrow> py_error + 'v grad_obj" where
  "Grad2DSynthesis_init np instantiate data ft linear_arg =
     then_do
       (case ft of
          FtDict items \<Rightarrow>
            if length items > 1 then Inl (NameError ''valueerror'')
            else (case items of [] \<Rightarrow> Inl IndexError | (k, kw) # _ \<Rightarrow> instantiate k kw)
        | FtObj f \<Rightarrow> Inr f)
       (\<lambda>f. Grad2DSynthesis_get_spec_rad np
          \<lparr>y = data, analysis = False, ft_cls = f, linear_cls = Some linear_arg,
           spec_rad = None, inv_spec_rad = None, grad = None\<rparr>
          (1 / 10000) 20 (11 / 10))"

subsection \<open>Grad2DSynthese\_Pmri\<close>

text \<open>
  The parallel-imaging class takes \<^verbatim>\<open>fft2\<close> and \<^verbatim>\<open>ifft2\<close> from scipy, and
  \<^verbatim>\<open>conjugate\<close> and \<^verbatim>\<open>np.sum(., axis=0)\<close> from numpy.  Its \<^verbatim>\<open>MX\<close> and \<^verbatim>\<open>MtX\<close> are
  declared with two parameters after \<^verbatim>\<open>self\<close>: \<^verbatim>\<open>(smap, alpha)\<close> and \<^verbatim>\<open>(smap, coeffs)\<close>;
  the bodies read \<^verbatim>\<open>self.smap\<close>, which is \<^verbatim>\<open>None\<close> when the constructor was given
  none.  (The \<^verbatim>\<open>return\<close> of \<^verbatim>\<open>MtX\<close> has one closing parenthesis too many in the source;
  the model reads the expression without it.)
\<close>

record 'v scipy_ext =
  fft2 :: "'v \<Rightarrow> 'v"
  ifft2 :: "'v \<Rightarrow> 'v"
  conjugate :: "'v \<Rightarrow> 'v"
  sum_axis0 :: "'v \<Rightarrow> 'v"

record 'v pmri_obj =
  pmri_y :: 'v
  smap :: "'v option"
  mask :: 'v
  linear_operator :: "'v linear"
  pmri_grad :: "'v option"

definition Grad2DSynthese_Pmri_MX :: "'v::times scipy_ext \<Rightarrow> 'v pmri_obj \<Rightarrow> 'v py_method" where
  "Grad2DSynthese_Pmri_MX ext self = Method2 (\<lambda>smap_arg alpha.
     case smap self of
       None \<Rightarrow> Inl TypeError
     | Some s \<Rightarrow> Inr (mask self * fft2 ext (s * lin_adj_op (linear_operator self) alpha)))"

definition Grad2DSynthese_Pmri_MtX :: "'v::times scipy_ext \<Rightarrow> 'v pmri_obj \<Rightarrow> 'v py_method" where
  "Grad2DSynthese_Pmri_MtX ext self = Method2 (\<lambda>smap_arg coeffs.
     case smap self of
       None \<Rightarrow> Inl (AttributeError ''conjugate'')
     | Some s \<Rightarrow>
         Inr (lin_op (linear_operator self) (conjugate ext s * ifft2 ext (mask self * coeffs))))"

definition Grad2DSynthese_Pmri_get_grad ::
  "'v::{times,minus} scipy_ext \<Rightarrow> 'v pmri_obj \<Rightarrow> 'v \<Rightarrow> py_error + 'v pmri_obj" where
  "Grad2DSynthese_Pmri_get_grad ext self x =
     then_do (call1 (Grad2DSynthese_Pmri_MX ext self) x) (\<lambda>m.
     then_do (call1 (Grad2DSynthese_Pmri_MtX ext self) (m - pmri_y self)) (\<lambda>g.
       Inr (self\<lparr>pmri_grad := Some (sum_axis0 ext g)\<rparr>)))"

subsection \<open>The stopping rule in the words of the specification\<close>

text \<open>
  The specification describes the loop of \<^verbatim>\<open>get_spec_rad\<close> as stopping on the
  \<^emph>\<open>relative\<close> change of the norm between consecutive iterates.  \<open>power_loop_relative\<close>
  and \<open>get_spec_rad_relative\<close> follow these words (the change divided by the norm of the
  previous iterate); they are compared with \<open>power_loop\<close> and \<open>get_spec_rad\<close>, which follow
  the code.
\<close>

fun power_loop_relative ::
  "('v::real_vector \<Rightarrow> py_error + 'v) \<Rightarrow> ('v \<Rightarrow> real) \<Rightarrow> real \<Rightarrow> nat \<Rightarrow> 'v \<Rightarrow> 'v option
    \<Rightarrow> py_error + 'v option" where
  "power_loop_relative mtmx l2 tolerance 0 x_old x_new = Inr x_new"
| "power_loop_relative mtmx l2 tolerance (Suc n) x_old x_new =
     then_do (mtmx x_old) (\<lambda>m.
       if l2 x_old = 0 then Inl NonFinite
       else let x_new' = m /\<^sub>R l2 x_old in
         if \<bar>l2 x_new' - l2 x_old\<bar> / l2 x_old < tolerance then Inr (Some x_new')
         else power_loop_relative mtmx l2 tolerance n x_new' (Some x_new'))"

definition get_spec_rad_relative ::
  "'v numerics \<Rightarrow> (py_error + 'v) \<Rightarrow> 'v py_method \<Rightarrow> 'v py_method \<Rightarrow> 'v::real_vector grad_obj
    \<Rightarrow> real \<Rightarrow> nat \<Rightarrow> real \<Rightarrow> py_error + 'v grad_obj" where
  "get_spec_rad_relative np get_initial_x mx mtx self tolerance max_iter coef_mul =
     then_do get_initial_x (\<lambda>x_old.
     then_do (power_loop_relative (MtMX mx mtx) (generic_l2_norm np) tolerance max_iter x_old None)
       (\<lambda>r. case r of
          None \<Rightarrow> Inl (UnboundLocalError ''x_new'')
        | Some x_new \<Rightarrow>
            let sr = coef_mul * generic_l2_norm np x_new in
            if sr = 0 then Inl NonFinite
            else Inr (self\<lparr>spec_rad := Some sr, inv_spec_rad := Some (1 / sr)\<rparr>)))"

text \<open>The iterates of the power method: \<open>power_iterate A l2 k x\<close> is the \<open>k\<close>-th one from \<open>x\<close>.\<close>

definition power_iterate :: "('v::real_vector \<Rightarrow> 'v) \<Rightarrow> ('v \<Rightarrow> real) \<Rightarrow> nat \<Rightarrow> 'v \<Rightarrow> 'v" where
  "power_iterate A l2 k x = ((\<lambda>v. A v /\<^sub>R l2 v) ^^ k) x"

subsection \<open>Concrete arrays: images of two real pixels\<close>

datatype vec2 = Vec2 real real

instantiation vec2 :: real_vector
begin

definition zero_vec2 :: vec2 where
  "zero_vec2 = Vec2 0 0"

fun plus_vec2 :: "vec2 \<Rightarrow> vec2 \<Rightarrow> vec2" where
  "plus_vec2 (Vec2 a b) (Vec2 c d) = Vec2 (a + c) (b + d)"

fun minus_vec2 :: "vec2 \<Rightarrow> vec2 \<Rightarrow> vec2" where
  "minus_vec2 (Vec2 a b) (Vec2 c d) = Vec2 (a - c) (b - d)"

fun uminus_vec2 :: "vec2 \<Rightarrow> vec2" where
  "uminus_vec2 (Vec2 a b) = Vec2 (- a) (- b)"

fun scaleR_vec2 :: "real \<Rightarrow> vec2 \<Rightarrow> vec2" where
  "scaleR_vec2 r (Vec2 a b) = Vec2 (r * a) (r * b)"

instance
proof
  fix u v w :: vec2 and r s :: real
  show "u + v + w = u + (v + w)"
    by (cases u; cases v; cases w) simp
  show "u + v = v + u"
    by (cases u; cases v) simp
  show "0 + u = u"
    by (cases u) (simp add: zero_vec2_def)
  show "- u + u = 0"
    by (cases u) (simp add: zero_vec2_def)
  show "u - v = u + - v"
    by (cases u; cases v) simp
  show "r *\<^sub>R (u + v) = r *\<^sub>R u + r *\<^sub>R v"
    by (cases u; cases v) (simp add: algebra_simps)
  show "(r + s) *\<^sub>R u = r *\<^sub>R u + s *\<^sub>R u"
    by (cases u) (simp add: algebra_simps)
  show "r *\<^sub>R s *\<^sub>R u = (r * s) *\<^sub>R u"
    by (cases u) simp
  show "1 *\<^sub>R u = u"
    by (cases u) simp
qed

end

text \<open>The L2 norm of a two-pixel image, and the diagonal forward operator \<open>diag(4, 3)\<close>.\<close>

fun l2_vec2 :: "vec2 \<Rightarrow> real" where
  "l2_vec2 (Vec2 a b) = sqrt (a\<^sup>2 + b\<^sup>2)"

fun diag_4_3 :: "vec2 \<Rightarrow> vec2" where
  "diag_4_3 (Vec2 a b) = Vec2 (4 * a) (3 * b)"

definition np_vec2 :: "vec2 numerics" where
  "np_vec2 = \<lparr>generic_l2_norm = l2_vec2, random_image = (\<lambda>n. Vec2 3 4),
     zeros_image = (\<lambda>n. Vec2 0 0), random_data_like = (\<lambda>v. Vec2 3 4)\<rparr>"

definition ft_diag_4_3 :: "vec2 fourier" where
  "ft_diag_4_3 = \<lparr>ft_op = diag_4_3, ft_adj_op = diag_4_3, img_size = 2\<rparr>"

definition grad_vec2 :: "vec2 grad_obj" where
  "grad_vec2 = \<lparr>y = Vec2 0 0, analysis = True, ft_cls = ft_diag_4_3, linear_cls = None,
     spec_rad = None, inv_spec_rad = None, grad = None\<rparr>"

section \<open>pysap/plugins/mri/parallel\_mri\_online/proximity.py\<close>

subsection \<open>numpy arrays\<close>

text \<open>
  An array is its shape and its entries in row-major order; a well-formed array has
  \<open>prod_list (shape a)\<close> entries.  \<^verbatim>\<open>np.reshape\<close> raises \<^verbatim>\<open>ValueError\<close> when the new shape
  does not have the size of the array.  \<^verbatim>\<open>np.moveaxis(a, 0, -1)\<close> sends the leading
  (channel) axis to the end and \<^verbatim>\<open>np.moveaxis(a, -1, 0)\<close> brings it back; both need an
  array of at least one axis.
\<close>

record 'a ndarray =
  shape :: "nat list"
  flat :: "'a list"

definition np_reshape :: "'a ndarray \<Rightarrow> nat list \<Rightarrow> py_error + 'a ndarray" where
  "np_reshape a new_shape =
     (if prod_list new_shape = length (flat a) then Inr \<lparr>shape = new_shape, flat = flat a\<rparr>
      else Inl ValueError)"

definition moveaxis_0_last :: "'a ndarray \<Rightarrow> py_error + 'a ndarray" where
  "moveaxis_0_last a =
     (case shape a of
        [] \<Rightarrow> Inl ValueError
      | c # rest \<Rightarrow>
          Inr \<lparr>shape = rest @ [c],
               flat = map (\<lambda>i. flat a ! ((i mod c) * prod_list rest + i div c))
                        [0..<c * prod_list rest]\<rparr>)"

definition moveaxis_last_0 :: "'a ndarray \<Rightarrow> py_error + 'a ndarray" where
  "moveaxis_last_0 a =
     (case shape a of
        [] \<Rightarrow> Inl ValueError
      | _ # _ \<Rightarrow>
          (let c = last (shape a); rest = butlast (shape a) in
           Inr \<lparr>shape = c # rest,
                flat = map (\<lambda>i. flat a ! ((i mod prod_list rest) * c + i div prod_list rest))
                         [0..<c * prod_list rest]\<rparr>))"

text \<open>
  \<^verbatim>\<open>u * s\<close> for a matrix \<open>u\<close> and a vector \<open>s\<close> scales column \<open>j\<close> of \<open>u\<close> by \<open>s[j]\<close>;
  \<^verbatim>\<open>np.dot\<close> is the matrix product.  Both raise \<^verbatim>\<open>ValueError\<close> on shapes that do not
  fit.
\<close>

definition np_mul_columns :: "complex ndarray \<Rightarrow> real list \<Rightarrow> py_error + complex ndarray" where
  "np_mul_columns u s =
     (case shape u of
        [m, k] \<Rightarrow>
          if length s = k
          then Inr (u\<lparr>flat := map (\<lambda>i. flat u ! i * of_real (s ! (i mod k))) [0..<m * k]\<rparr>)
          else Inl ValueError
      | _ \<Rightarrow> Inl ValueError)"

definition np_dot :: "complex ndarray \<Rightarrow> complex ndarray \<Rightarrow> py_error + complex ndarray" where
  "np_dot a b =
     (case (shape a, shape b) of
        ([m, k], [k', n]) \<Rightarrow>
          if k = k'
          then Inr \<lparr>shape = [m, n],
                    flat = map (\<lambda>i. \<Sum>j\<leftarrow>[0..<k]. flat a ! ((i div n) * k + j) * flat b ! (j * n + i mod n))
                             [0..<m * n]\<rparr>
          else Inl ValueError
      | _ \<Rightarrow> Inl ValueError)"

text \<open>\<^verbatim>\<open>np.finfo(np.float32).eps\<close>\<close>

definition eps32 :: real where
  "eps32 = 1 / 2 ^ 23"

subsection \<open>NuclearNorm\<close>

text \<open>
  \<^verbatim>\<open>patch_shape\<close> is a tuple of integers; \<^verbatim>\<open>MultiLevelNuclearNorm.__init__\<close> can also
  leave a single integer there (it passes \<^verbatim>\<open>patch_shape[0]\<close> on).  \<^verbatim>\<open>weights\<close> is the
  float the solvers pass.
\<close>

datatype patch_shape_val = ShapeInt nat | ShapeTuple "nat list"

record nuclear_norm =
  weights :: real
  patch_shape :: patch_shape_val
  overlapping_factor :: nat

text \<open>
  What the class takes from outside \<^verbatim>\<open>src/\<close>: \<^verbatim>\<open>np.linalg.svd\<close> (with
  \<^verbatim>\<open>full_matrices=False\<close>, returning \<open>u\<close>, \<open>s\<close>, \<open>vh\<close>) and the three patch functions of
  \<^verbatim>\<open>pysap.plugins.mri.parallel_mri_online.utils\<close>.  The array of patches \<open>P\<close> is the list of
  its patches \<open>P[idx]\<close>.
\<close>

record patch_utils =
  svd :: "complex ndarray \<Rightarrow> complex ndarray \<times> real list \<times> complex ndarray"
  extract_patches_2d :: "complex ndarray \<Rightarrow> patch_shape_val \<Rightarrow> nat \<Rightarrow> py_error + complex ndarray list"
  reconstruct_non_overlapped_patches_2d ::
    "complex ndarray list \<Rightarrow> nat list \<Rightarrow> py_error + complex ndarray"
  reconstruct_overlapped_patches_2d ::
    "nat list \<Rightarrow> complex ndarray list \<Rightarrow> nat list \<Rightarrow> py_error + complex ndarray"

definition NuclearNorm_init :: "real \<Rightarrow> patch_shape_val \<Rightarrow> nat \<Rightarrow> nuclear_norm" where
  "NuclearNorm_init weights_arg patch_shape_arg overlapping_factor_arg =
     \<lparr>weights = weights_arg, patch_shape = patch_shape_arg,
      overlapping_factor = overlapping_factor_arg\<rparr>"

text \<open>
  The matrix shape both \<^verbatim>\<open>_prox_nuclear_norm\<close> and \<^verbatim>\<open>_nuclear_norm_cost\<close> reshape the
  patch to: \<^verbatim>\<open>(np.prod(self.patch_shape[:-1]), patch.shape[-1])\<close>.  An integer
  \<^verbatim>\<open>patch_shape\<close> cannot be sliced; the product of the empty tuple is the float \<^verbatim>\<open>1.0\<close>,
  which \<^verbatim>\<open>np.reshape\<close> refuses as a dimension.
\<close>

definition patch_matrix_shape :: "'a nuclear_norm_scheme \<Rightarrow> 'b ndarray \<Rightarrow> py_error + nat list" where
  "patch_matrix_shape self patch =
     (case patch_shape self of
        ShapeInt _ \<Rightarrow> Inl TypeError
      | ShapeTuple ps \<Rightarrow>
          (case shape patch of
             [] \<Rightarrow> Inl IndexError
           | _ # _ \<Rightarrow>
               if butlast ps = [] then Inl TypeError
               else Inr [prod_list (butlast ps), last (shape patch)]))"

definition shrink_singular_values :: "real \<Rightarrow> real list \<Rightarrow> real list" where
  "shrink_singular_values threshold s =
     map (\<lambda>x. x * max (1 - threshold / max eps32 \<bar>x\<bar>) 0) s"

definition prox_nuclear_norm ::
  "patch_utils \<Rightarrow> 'a nuclear_norm_scheme \<Rightarrow> complex ndarray \<Rightarrow> real \<Rightarrow> py_error + complex ndarray" where
  "prox_nuclear_norm env self patch threshold =
     then_do (patch_matrix_shape self patch) (\<lambda>ms.
     then_do (np_reshape patch ms) (\<lambda>mat.
       case svd env mat of (u, s, vh) \<Rightarrow>
         then_do (np_mul_columns u (shrink_singular_values threshold s)) (\<lambda>us.
         then_do (np_dot us vh) (\<lambda>d.
           np_reshape d (shape patch)))))"

definition nuclear_norm_cost ::
  "patch_utils \<Rightarrow> 'a nuclear_norm_scheme \<Rightarrow> complex ndarray \<Rightarrow> py_error + real" where
  "nuclear_norm_cost env self patch =
     then_do (patch_matrix_shape self patch) (\<lambda>ms.
     then_do (np_reshape patch ms) (\<lambda>mat.
       case svd env mat of (u, s, vh) \<Rightarrow> Inr (\<Sum>x\<leftarrow>s. \<bar>x\<bar>)))"

text \<open>The loop over the patches, in order; it stops at the first patch that raises.\<close>

fun map_patches :: "('a \<Rightarrow> py_error + 'b) \<Rightarrow> 'a list \<Rightarrow> py_error + 'b list" where
  "map_patches f [] = Inr []"
| "map_patches f (p # ps) =
     then_do (f p) (\<lambda>r. then_do (map_patches f ps) (\<lambda>rs. Inr (r # rs)))"

text \<open>
  \<^verbatim>\<open>NuclearNorm.op\<close>.  With \<^verbatim>\<open>num_cores\<close> other than 1 the patches go through joblib's
  \<^verbatim>\<open>Parallel\<close>, which returns the results of the same calls in the same order.
\<close>

definition NuclearNorm_op ::
  "patch_utils \<Rightarrow> 'a nuclear_norm_scheme \<Rightarrow> complex ndarray \<Rightarrow> real \<Rightarrow> nat \<Rightarrow> py_error + complex ndarray" where
  "NuclearNorm_op env self data extra_factor num_cores =
     (let threshold = weights self * extra_factor in
      if ShapeTuple (tl (shape data)) = patch_shape self then
        then_do (moveaxis_0_last data) (\<lambda>images.
        then_do (case shape data of [] \<Rightarrow> Inl IndexError | c # _ \<Rightarrow> Inr c) (\<lambda>c.
        then_do (np_reshape images [prod_list (tl (shape data)), c]) (\<lambda>patch.
        then_do (prox_nuclear_norm env self patch threshold) (\<lambda>images'.
          moveaxis_last_0 images'))))
      else if overlapping_factor self = 1 then
        then_do (moveaxis_0_last data) (\<lambda>img.
        then_do (extract_patches_2d env img (patch_shape self) (overlapping_factor self)) (\<lambda>P.
        then_do (map_patches (\<lambda>patch. prox_nuclear_norm env self patch threshold) P) (\<lambda>P'.
          reconstruct_non_overlapped_patches_2d env P' (tl (shape data)))))
      else
        then_do (moveaxis_0_last data) (\<lambda>img.
        then_do (extract_patches_2d env img (patch_shape self) (overlapping_factor self)) (\<lambda>P.
        then_do (case patch_shape self of
                   ShapeInt _ \<Rightarrow> Inl TypeError
                 | ShapeTuple ps \<Rightarrow>
                     if overlapping_factor self = 0 \<and> ps \<noteq> [] then Inl ZeroDivisionError
                     else Inr (map (\<lambda>P_shape. P_shape div overlapping_factor self) ps))
          (\<lambda>extraction_step_size.
        then_do (map_patches (\<lambda>patch. prox_nuclear_norm env self patch threshold) P) (\<lambda>P'.
        then_do (reconstruct_overlapped_patches_2d env (shape img) P' extraction_step_size)
          moveaxis_last_0)))))"

text \<open>
  \<^verbatim>\<open>NuclearNorm.get_cost\<close>.  In the branch without overlap and with \<^verbatim>\<open>num_cores\<close> other
  than 1 the code reads \<^verbatim>\<open>self._cost_nuclear_norm\<close>, an attribute no class defines, once
  per patch; in both branches it then adds the list that \<^verbatim>\<open>Parallel\<close> returns to a number.
\<close>

definition NuclearNorm_get_cost ::
  "patch_utils \<Rightarrow> 'a nuclear_norm_scheme \<Rightarrow> complex ndarray \<Rightarrow> real \<Rightarrow> nat \<Rightarrow> py_error + real" where
  "NuclearNorm_get_cost env self data extra_factor num_cores =
     (let threshold = weights self * extra_factor in
      if ShapeTuple (tl (shape data)) = patch_shape self then
        then_do (moveaxis_0_last data) (\<lambda>images.
        then_do (case shape data of [] \<Rightarrow> Inl IndexError | c # _ \<Rightarrow> Inr c) (\<lambda>c.
        then_do (np_reshape images [prod_list (tl (shape data)), c]) (\<lambda>patch.
        then_do (nuclear_norm_cost env self patch) (\<lambda>cost.
          Inr (cost * threshold)))))
      else
        then_do (moveaxis_0_last data) (\<lambda>img.
        then_do (extract_patches_2d env img (patch_shape self) (overlapping_factor self)) (\<lambda>P.
          if num_cores = 1 then
            then_do (map_patches (nuclear_norm_cost env self) P) (\<lambda>costs.
              Inr (sum_list costs * threshold))
          else if overlapping_factor self = 1 then
            (if P = [] then Inl TypeError else Inl (AttributeError ''_cost_nuclear_norm''))
          else then_do (map_patches (nuclear_norm_cost env self) P) (\<lambda>costs. Inl TypeError))))"

subsection \<open>MultiLevelNuclearNorm\<close>

text \<open>
  The arguments of the constructor as Python values: \<^verbatim>\<open>weights\<close> is a float or a list
  of floats, \<^verbatim>\<open>patch_shape\<close> a tuple or a list of tuples.  Of the linear operator the
  class uses \<^verbatim>\<open>transform.nb_band_per_scale\<close>, \<^verbatim>\<open>reshape_coeff_channel\<close>,
  \<^verbatim>\<open>reshape_channel_coeff\<close> and \<^verbatim>\<open>flatten\<close>; none of them is under \<^verbatim>\<open>src/\<close>.
\<close>

datatype weights_arg = WeightsFloat real | WeightsList "real list"

datatype patch_shape_arg = PatchTuple "nat list" | PatchList "nat list list"

record mri_linear =
  nb_band_per_scale :: nat
  reshape_coeff_channel :: "complex ndarray \<Rightarrow> complex ndarray list"
  reshape_channel_coeff :: "complex ndarray list \<Rightarrow> complex ndarray list"
  flatten :: "complex ndarray \<Rightarrow> complex list"

text \<open>
  The attributes \<^verbatim>\<open>_weights\<close> and \<^verbatim>\<open>_patch_shape\<close> are the fields \<open>scale_weights\<close> and
  \<open>scale_patch_shape\<close> (an Isabelle name cannot start with an underscore).
\<close>

record multi_level_nuclear_norm = nuclear_norm +
  scale_weights :: "real list"
  scale_patch_shape :: "patch_shape_val list"
  linear_op :: "mri_linear option"

text \<open>\<^verbatim>\<open>weights[0]\<close> and \<^verbatim>\<open>patch_shape[0]\<close>, the arguments of \<^verbatim>\<open>NuclearNorm.__init__\<close>.\<close>

definition weights_item0 :: "weights_arg \<Rightarrow> py_error + real" where
  "weights_item0 w =
     (case w of
        WeightsFloat _ \<Rightarrow> Inl TypeError
      | WeightsList [] \<Rightarrow> Inl IndexError
      | WeightsList (x # _) \<Rightarrow> Inr x)"

definition patch_shape_item0 :: "patch_shape_arg \<Rightarrow> py_error + patch_shape_val" where
  "patch_shape_item0 p =
     (case p of
        PatchTuple [] \<Rightarrow> Inl IndexError
      | PatchTuple (d # _) \<Rightarrow> Inr (ShapeInt d)
      | PatchList [] \<Rightarrow> Inl IndexError
      | PatchList (t # _) \<Rightarrow> Inr (ShapeTuple t))"

definition MultiLevelNuclearNorm_init ::
  "weights_arg \<Rightarrow> patch_shape_arg \<Rightarrow> mri_linear option \<Rightarrow> nat
    \<Rightarrow> py_error + multi_level_nuclear_norm" where
  "MultiLevelNuclearNorm_init weights_a patch_shape_a linear_op_a overlapping_factor_a =
     then_do
       (case (weights_a, patch_shape_a) of
          (WeightsList ws, PatchList ps) \<Rightarrow>
            if length ws \<noteq> length ps then Inl ValueError
            else Inr (ws, map ShapeTuple ps)
        | (WeightsList ws, PatchTuple t) \<Rightarrow>
            Inr (ws, replicate (length ws) (ShapeTuple t))
        | (WeightsFloat w, PatchList ps) \<Rightarrow>
            Inr (replicate (length ps) w, map ShapeTuple ps)
        | (WeightsFloat w, PatchTuple t) \<Rightarrow>
            (case linear_op_a of
               None \<Rightarrow> Inl (AttributeError ''transform'')
             | Some lin \<Rightarrow>
                 Inr (replicate (nb_band_per_scale lin) w,
                      replicate (nb_band_per_scale lin) (ShapeTuple t))))
       (\<lambda>(sw, sp).
          then_do (weights_item0 weights_a) (\<lambda>w0.
          then_do (patch_shape_item0 patch_shape_a) (\<lambda>p0.
            Inr (nuclear_norm.extend (NuclearNorm_init w0 p0 overlapping_factor_a)
              \<lparr>scale_weights = sw, scale_patch_shape = sp, linear_op = linear_op_a\<rparr>))))"

text \<open>
  \<^verbatim>\<open>op\<close> and \<^verbatim>\<open>get_cost\<close> assign \<^verbatim>\<open>self.weights\<close> and \<^verbatim>\<open>self.patch_shape\<close> in their
  loops, so both return the object together with the result: an exception does not
  undo the assignments made before it.  The loop runs over
  \<^verbatim>\<open>zip(coeffs, self._weights, self._patch_shape)\<close>.
\<close>

fun MultiLevelNuclearNorm_op_loop ::
  "patch_utils \<Rightarrow> multi_level_nuclear_norm \<Rightarrow> (complex ndarray \<times> real \<times> patch_shape_val) list
    \<Rightarrow> real \<Rightarrow> nat \<Rightarrow> complex ndarray list
    \<Rightarrow> multi_level_nuclear_norm \<times> (py_error + complex ndarray list)" where
  "MultiLevelNuclearNorm_op_loop env self [] extra_factor num_cores prox_coeffs =
     (self, Inr prox_coeffs)"
| "MultiLevelNuclearNorm_op_loop env self ((coeffs_per_band, w, p) # rest) extra_factor num_cores
       prox_coeffs =
     (let self' = self\<lparr>weights := w, patch_shape := p\<rparr> in
      case NuclearNorm_op env self' coeffs_per_band extra_factor num_cores of
        Inl e \<Rightarrow> (self', Inl e)
      | Inr r \<Rightarrow>
          MultiLevelNuclearNorm_op_loop env self' rest extra_factor num_cores (prox_coeffs @ [r]))"

definition MultiLevelNuclearNorm_op ::
  "patch_utils \<Rightarrow> multi_level_nuclear_norm \<Rightarrow> complex ndarray \<Rightarrow> real \<Rightarrow> nat
    \<Rightarrow> multi_level_nuclear_norm \<times> (py_error + complex list list)" where
  "MultiLevelNuclearNorm_op env self wavelet_coeffs extra_factor num_cores =
     (case linear_op self of
        None \<Rightarrow> (self, Inl (AttributeError ''reshape_coeff_channel''))
      | Some lin \<Rightarrow>
          (case MultiLevelNuclearNorm_op_loop env self
                  (zip (reshape_coeff_channel lin wavelet_coeffs)
                     (zip (scale_weights self) (scale_patch_shape self)))
                  extra_factor num_cores [] of
             (self', Inl e) \<Rightarrow> (self', Inl e)
           | (self', Inr prox_coeffs) \<Rightarrow>
               (self', Inr (map (flatten lin) (reshape_channel_coeff lin prox_coeffs)))))"

fun MultiLevelNuclearNorm_get_cost_loop ::
  "patch_utils \<Rightarrow> multi_level_nuclear_norm \<Rightarrow> (complex ndarray \<times> real \<times> patch_shape_val) list
    \<Rightarrow> real \<Rightarrow> nat \<Rightarrow> real \<Rightarrow> multi_level_nuclear_norm \<times> (py_error + real)" where
  "MultiLevelNuclearNorm_get_cost_loop env self [] extra_factor num_cores cost = (self, Inr cost)"
| "MultiLevelNuclearNorm_get_cost_loop env self ((coeff, w, p) # rest) extra_factor num_cores cost =
     (let self' = self\<lparr>weights := w, patch_shape := p\<rparr> in
      case NuclearNorm_get_cost env self' coeff extra_factor num_cores of
        Inl e \<Rightarrow> (self', Inl e)
      | Inr c \<Rightarrow>
          MultiLevelNuclearNorm_get_cost_loop env self' rest extra_factor num_cores (cost + c))"

definition MultiLevelNuclearNorm_get_cost ::
  "patch_utils \<Rightarrow> multi_level_nuclear_norm \<Rightarrow> complex ndarray \<Rightarrow> real \<Rightarrow> nat
    \<Rightarrow> multi_level_nuclear_norm \<times> (py_error + real)" where
  "MultiLevelNuclearNorm_get_cost env self wavelet_coeffs extra_factor num_cores =
     (case linear_op self of
        None \<Rightarrow> (self, Inl (AttributeError ''reshape_coeff_channel''))
      | Some lin \<Rightarrow>
          MultiLevelNuclearNorm_get_cost_loop env self
            (zip (reshape_coeff_channel lin wavelet_coeffs)
               (zip (scale_weights self) (scale_patch_shape self)))
            extra_factor num_cores 0)"

subsection \<open>A concrete environment: one-pixel patches\<close>

text \<open>
  The singular value decomposition of a \<open>1 \<times> 1\<close> matrix \<open>(a)\<close> is \<open>1 \<cdot> |a| \<cdot> a/|a|\<close>.  The
  environment \<open>utils_1x1\<close> has this decomposition and patch functions that are never
  needed when the data is a single patch; \<open>linear_1x1\<close> is a linear operator whose bands
  are the single coefficients of one channel, each a \<open>1 \<times> 1\<close> image.
\<close>

definition svd_1x1 :: "complex ndarray \<Rightarrow> complex ndarray \<times> real list \<times> complex ndarray" where
  "svd_1x1 mat =
     (let a = (case flat mat of [] \<Rightarrow> 0 | x # _ \<Rightarrow> x) in
      (\<lparr>shape = [1, 1], flat = [1]\<rparr>, [cmod a],
       \<lparr>shape = [1, 1], flat = [if a = 0 then 1 else a / of_real (cmod a)]\<rparr>))"

definition utils_1x1 :: patch_utils where
  "utils_1x1 =
     \<lparr>svd = svd_1x1,
      extract_patches_2d = (\<lambda>img ps k. Inl NotImplementedError),
      reconstruct_non_overlapped_patches_2d = (\<lambda>P img_size. Inl NotImplementedError),
      reconstruct_overlapped_patches_2d = (\<lambda>img_size P step. Inl NotImplementedError)\<rparr>"

definition linear_1x1 :: mri_linear where
  "linear_1x1 =
     \<lparr>nb_band_per_scale = 2,
      reshape_coeff_channel = (\<lambda>a. map (\<lambda>x. \<lparr>shape = [1, 1, 1], flat = [x]\<rparr>) (flat a)),
      reshape_channel_coeff = (\<lambda>bands. bands),
      flatten = flat\<rparr>"

definition two_scales :: multi_level_nuclear_norm where
  "two_scales =
     \<lparr>weights = 1, patch_shape = ShapeTuple [1, 1], overlapping_factor = 1,
      scale_weights = [1, 2], scale_patch_shape = [ShapeTuple [1, 1], ShapeTuple [1, 1]],
      linear_op = Some linear_1x1\<rparr>"

subsection \<open>GroupLasso\<close>

text \<open>
  \<^verbatim>\<open>np.linalg.norm(data, axis=0)\<close> is the L2 norm over the leading (channel) axis, one
  norm per position of the remaining axes; it needs an array with at least one axis.
  The first \<^verbatim>\<open>np.maximum(...) * data\<close> of \<^verbatim>\<open>op\<close> is an expression statement whose value
  is dropped.  The norms broadcast against the data along the trailing axes.
  \<^verbatim>\<open>weights\<close> is the float the solvers pass.
\<close>

record group_lasso =
  gl_weights :: real

definition GroupLasso_init :: "real \<Rightarrow> group_lasso" where
  "GroupLasso_init weights_arg = \<lparr>gl_weights = weights_arg\<rparr>"

definition norm_axis0 :: "complex ndarray \<Rightarrow> py_error + real list" where
  "norm_axis0 a =
     (case shape a of
        [] \<Rightarrow> Inl ValueError
      | c # rest \<Rightarrow>
          Inr (map (\<lambda>p. sqrt (\<Sum>ch\<leftarrow>[0..<c]. (cmod (flat a ! (ch * prod_list rest + p)))\<^sup>2))
                 [0..<prod_list rest]))"

definition GroupLasso_op :: "group_lasso \<Rightarrow> complex ndarray \<Rightarrow> real \<Rightarrow> py_error + complex ndarray" where
  "GroupLasso_op self data extra_factor =
     then_do (norm_axis0 data) (\<lambda>norm_2.
       Inr (data\<lparr>flat :=
         map (\<lambda>i. flat data ! i *
                of_real (max 0 (1 - gl_weights self * extra_factor
                                      / max (norm_2 ! (i mod length norm_2)) eps32)))
           [0..<length (flat data)]\<rparr>))"

definition GroupLasso_get_cost :: "group_lasso \<Rightarrow> complex ndarray \<Rightarrow> py_error + real" where
  "GroupLasso_get_cost self data = then_do (norm_axis0 data) (\<lambda>norm_2. Inr (sum_list norm_2))"

text \<open>
  \<^verbatim>\<open>SparseGroupLasso.op\<close> applies the soft threshold of modopt's \<^verbatim>\<open>SparseThreshold\<close> (an
  external class, the parameter \<open>prox_op_l1\<close>) and then the group lasso, with the same
  \<^verbatim>\<open>extra_factor\<close>.
\<close>

definition SparseGroupLasso_op ::
  "(complex ndarray \<Rightarrow> real \<Rightarrow> py_error + complex ndarray) \<Rightarrow> group_lasso \<Rightarrow> complex ndarray
    \<Rightarrow> real \<Rightarrow> py_error + complex ndarray" where
  "SparseGroupLasso_op prox_op_l1 prox_op_l2 data extra_factor =
     then_do (prox_op_l1 data extra_factor) (\<lambda>d. GroupLasso_op prox_op_l2 d extra_factor)"

subsection \<open>k\_support\_norm\<close>

text \<open>
  \<^verbatim>\<open>__init__\<close> assigns \<^verbatim>\<open>self.weights = lmbda\<close> and \<^verbatim>\<open>self.k = k\<close>.  The methods read
  \<^verbatim>\<open>self.lmbda\<close>, which no code of the class assigns: the read raises
  \<^verbatim>\<open>AttributeError\<close>.
\<close>

record k_support_norm =
  ksn_weights :: real
  ksn_k :: real

definition k_support_norm_init :: "real \<Rightarrow> real \<Rightarrow> k_support_norm" where
  "k_support_norm_init k_arg lmbda_arg = \<lparr>ksn_weights = lmbda_arg, ksn_k = k_arg\<rparr>"

definition k_support_norm_lmbda :: "k_support_norm \<Rightarrow> py_error + real" where
  "k_support_norm_lmbda self = Inl (AttributeError ''lmbda'')"

text \<open>
  Python indexing and slicing of a one-dimensional array: a negative index counts from
  the end, an index out of range raises \<^verbatim>\<open>IndexError\<close>, the bounds of a slice are
  clamped.  A numpy division by zero gives \<^verbatim>\<open>inf\<close> or \<^verbatim>\<open>nan\<close> and does not raise.
\<close>

definition py_index :: "'a list \<Rightarrow> int \<Rightarrow> py_error + 'a" where
  "py_index xs i =
     (let n = int (length xs); j = (if i < 0 then n + i else i)
      in if 0 \<le> j \<and> j < n then Inr (xs ! nat j) else Inl IndexError)"

definition py_slice :: "'a list \<Rightarrow> int \<Rightarrow> int \<Rightarrow> 'a list" where
  "py_slice xs a b =
     (let n = int (length xs);
          clamp = (\<lambda>i. if i < 0 then max 0 (n + i) else min i n);
          start = nat (clamp a); stop = nat (clamp b)
      in take (stop - start) (drop start xs))"

definition np_divide :: "real \<Rightarrow> real \<Rightarrow> py_error + real" where
  "np_divide a b = (if b = 0 then Inl NonFinite else Inr (a / b))"

text \<open>
  One pass through the body of the \<^verbatim>\<open>while\<close> loop of \<^verbatim>\<open>_find_alpha\<close>, on the locals
  \<open>(q, l, idx, test_q, test_l)\<close>, up to and including \<^verbatim>\<open>idx += 1\<close>.  The operands
  \<^verbatim>\<open>data_sorted[q]\<close>, \<^verbatim>\<open>data_sorted[q+1]\<close> are read before \<^verbatim>\<open>self.lmbda\<close>.
\<close>

type_synonym find_alpha_state = "int \<times> int \<times> nat \<times> bool \<times> bool"

definition find_alpha_body ::
  "k_support_norm \<Rightarrow> real list \<Rightarrow> find_alpha_state \<Rightarrow> py_error + find_alpha_state" where
  "find_alpha_body self data_sorted st =
     (case st of (q, l, idx, test_q, test_l) \<Rightarrow>
        if idx mod 2 = 0 then
          (if \<not> test_q then
             then_do (py_index data_sorted q) (\<lambda>d_q.
             then_do (py_index data_sorted (q + 1)) (\<lambda>d_q1.
             then_do (k_support_norm_lmbda self) (\<lambda>lmbda.
             then_do (np_divide ((ksn_k self - of_int q) * 1.0 * d_q)
                        (sum_list (py_slice data_sorted (q + 1) l))) (\<lambda>r_q_0.
             then_do (np_divide ((ksn_k self - of_int (q + 1)) * 1.0 * d_q1)
                        (sum_list (py_slice data_sorted (q + 2) l))) (\<lambda>r_q_1.
               Inr (q + 1, l, idx + 1, r_q_0 > lmbda + 1 \<and> r_q_1 < lmbda + 1, test_l))))))
           else Inr (q, l, idx + 1, test_q, test_l))
        else
          (if \<not> test_l then
             then_do (py_index data_sorted l) (\<lambda>d_l.
             then_do (py_index data_sorted (l + 1)) (\<lambda>d_l1.
             then_do (k_support_norm_lmbda self) (\<lambda>lmbda.
             then_do (np_divide ((ksn_k self - of_int q) * 1.0 * d_l)
                        (sum_list (py_slice data_sorted (q + 1) l))) (\<lambda>r_l_0.
             then_do (np_divide ((ksn_k self - of_int q) * 1.0 * d_l1)
                        (sum_list (py_slice data_sorted (q + 1) l))) (\<lambda>r_l_1.
               Inr (q, l - 1, idx + 1, test_q, r_l_0 > lmbda \<and> r_l_1 < lmbda))))))
           else Inr (q, l, idx + 1, test_q, test_l)))"

text \<open>
  The \<^verbatim>\<open>while\<close> loop: it is left by \<^verbatim>\<open>break\<close> (with \<open>alpha\<close> computed), by an
  exception, or when its condition fails (with \<open>alpha = 0\<close>).  A loop that does not
  return is \<open>None\<close>.
\<close>

partial_function (option) find_alpha_loop ::
  "k_support_norm \<Rightarrow> real list \<Rightarrow> find_alpha_state \<Rightarrow> (py_error + real \<times> int \<times> int) option" where
  "find_alpha_loop self data_sorted st =
     (case st of (q, l, idx, test_q, test_l) \<Rightarrow>
        if (q < int (length data_sorted) - 1 \<and> l > 0) \<or> \<not> (test_q \<and> test_l) then
          (case find_alpha_body self data_sorted st of
             Inl e \<Rightarrow> Some (Inl e)
           | Inr (q', l', idx', test_q', test_l') \<Rightarrow>
               if test_q' \<and> test_l' then
                 Some (then_do (np_divide (ksn_k self - of_int q')
                                  (sum_list (py_slice data_sorted (q' + 1) l')))
                         (\<lambda>alpha. Inr (alpha, q', l')))
               else find_alpha_loop self data_sorted (q', l', idx', test_q', test_l'))
        else Some (Inr (0, q, l)))"

definition find_alpha ::
  "k_support_norm \<Rightarrow> real list \<Rightarrow> (py_error + real \<times> int \<times> int) option" where
  "find_alpha self w =
     find_alpha_loop self (rev (sort (map abs w))) (0, int (length w) - 2, 0, False, False)"

definition calc_theta :: "k_support_norm \<Rightarrow> real list \<Rightarrow> real \<Rightarrow> py_error + real list" where
  "calc_theta self w alpha =
     then_do (k_support_norm_lmbda self) (\<lambda>lmbda.
       Inr (map (\<lambda>x. (if alpha * \<bar>x\<bar> > lmbda + 1 then 1 else 0)
                   + alpha * \<bar>x\<bar> * (if alpha * \<bar>x\<bar> \<le> lmbda + 1 \<and> alpha * \<bar>x\<bar> \<ge> lmbda then 1 else 0))
              w))"

text \<open>\<^verbatim>\<open>k_support_norm.op\<close>; the parameter \<^verbatim>\<open>extra_factor\<close> is not used by the body.\<close>

definition k_support_norm_op ::
  "k_support_norm \<Rightarrow> complex list \<Rightarrow> real \<Rightarrow> (py_error + complex list) option" where
  "k_support_norm_op self data extra_factor =
     (case find_alpha self (map cmod data) of
        None \<Rightarrow> None
      | Some r \<Rightarrow>
          Some (then_do r (\<lambda>(alpha, q, l).
                then_do (calc_theta self (map cmod data) alpha) (\<lambda>theta.
                then_do (k_support_norm_lmbda self) (\<lambda>lmbda.
                  if \<exists>t \<in> set theta. t + lmbda = 0 then Inl NonFinite
                  else Inr (map2 (\<lambda>d t. d * of_real t / of_real (t + lmbda)) data theta))))))"

subsection \<open>OWL\<close>

text \<open>
  Modelled from the spec: \<^verbatim>\<open>sklearn.isotonic.isotonic_regression\<close> is a library function
  and not under \<^verbatim>\<open>src/\<close>.  The specification describes the call
  \<^verbatim>\<open>isotonic_regression(y, y_min=0, increasing=False)\<close> as the projection onto the monotone
  non-negative non-increasing cone (isotonic regression with a non-increasing constraint
  and a floor of zero).  The model is the pool-adjacent-violators algorithm: it fits a
  non-decreasing sequence to the reversed input (a stack of blocks, each a sum and a
  count, pooled while the mean of a block is not above the mean of the block before
  it), floors the fit at zero and reverses it back.
\<close>

fun pava_push :: "real \<times> nat \<Rightarrow> (real \<times> nat) list \<Rightarrow> (real \<times> nat) list" where
  "pava_push b [] = [b]"
| "pava_push (s, n) ((s', n') # bs) =
     (if s / real n \<le> s' / real n' then pava_push (s + s', n + n') bs
      else (s, n) # (s', n') # bs)"

text \<open>
  The invariant of the stack of blocks: every block has at least one entry, and the
  means of the blocks decrease strictly from the top of the stack down.
\<close>

fun blocks_ok :: "(real \<times> nat) list \<Rightarrow> bool" where
  "blocks_ok [] = True"
| "blocks_ok [(s, n)] = (0 < n)"
| "blocks_ok ((s, n) # (s', n') # bs) = (0 < n \<and> s' / real n' < s / real n \<and> blocks_ok ((s', n') # bs))"

definition pava_blocks :: "real list \<Rightarrow> (real \<times> nat) list" where
  "pava_blocks ys = foldl (\<lambda>bs y. pava_push (y, 1) bs) [] ys"

definition expand_blocks :: "(real \<times> nat) list \<Rightarrow> real list" where
  "expand_blocks bs = concat (map (\<lambda>(s, n). replicate n (s / real n)) (rev bs))"

definition pava :: "real list \<Rightarrow> real list" where
  "pava ys = expand_blocks (pava_blocks ys)"

definition isotonic_regression :: "real list \<Rightarrow> real list" where
  "isotonic_regression ys = rev (map (max 0) (pava (rev ys)))"

text \<open>
  \<^verbatim>\<open>np.argsort\<close> gives the indices that sort an array in ascending order; the model
  sorts stably (numpy's default sort does not promise an order among equal entries).
  \<^verbatim>\<open>inv_x[ix] = np.arange(len(data))\<close> writes \<open>j\<close> at position \<open>ix[j]\<close>; \<open>fit[inv_x]\<close> reads
  the fit at the positions \<open>inv_x\<close> and raises \<^verbatim>\<open>IndexError\<close> on a position out of range.
  The subtraction of the threshold broadcasts: a threshold of one entry (or a float)
  is subtracted from every entry.
\<close>

definition argsort :: "real list \<Rightarrow> nat list" where
  "argsort xs = map snd (sort_key fst (zip xs [0..<length xs]))"

fun scatter :: "nat list \<Rightarrow> nat \<Rightarrow> nat list \<Rightarrow> nat list" where
  "scatter [] j inv_x = inv_x"
| "scatter (i # idx) j inv_x = scatter idx (Suc j) (inv_x[i := j])"

definition np_take :: "'a list \<Rightarrow> nat list \<Rightarrow> py_error + 'a list" where
  "np_take ys idx =
     (if list_all (\<lambda>i. i < length ys) idx then Inr (map (\<lambda>i. ys ! i) idx) else Inl IndexError)"

definition broadcast_sub :: "real list \<Rightarrow> real list \<Rightarrow> py_error + real list" where
  "broadcast_sub a t =
     (if length t = length a then Inr (map2 (\<lambda>x y. x - y) a t)
      else if length t = 1 then Inr (map (\<lambda>x. x - hd t) a)
      else if length a = 1 then Inr (map (\<lambda>y. hd a - y) t)
      else Inl ValueError)"

text \<open>
  \<^verbatim>\<open>OWL._prox_owl\<close>.  \<^verbatim>\<open>data / np.abs(data)\<close> is \<^verbatim>\<open>nan\<close> at an entry that is zero, and so
  is the output there: an output entry is \<open>None\<close> for \<^verbatim>\<open>nan\<close>.  The entries are real or
  complex numbers.
\<close>

definition prox_owl :: "'a::real_normed_field list \<Rightarrow> real list \<Rightarrow> py_error + 'a option list" where
  "prox_owl data threshold =
     (let data_abs = map norm data;
          ix = rev (argsort data_abs);
          data_abs_sorted = map (\<lambda>j. data_abs ! j) ix
      in then_do (broadcast_sub data_abs_sorted threshold) (\<lambda>z.
           let fit = isotonic_regression z;
               inv_x = scatter ix 0 (replicate (length ix) 0)
           in then_do (np_take fit inv_x) (\<lambda>data_abs'.
                Inr (map2 (\<lambda>d m. if norm d = 0 then None
                                   else Some (d / of_real (norm d) * of_real m))
                       data data_abs'))))"

text \<open>
  For stating properties of \<open>prox_owl\<close>: the order \<open>ix\<close> in which it visits the entries
  (by descending magnitude) and the magnitudes of the input in that order.
\<close>

definition owl_order :: "'a::real_normed_field list \<Rightarrow> nat list" where
  "owl_order data = rev (argsort (map norm data))"

definition sorted_magnitudes :: "'a::real_normed_field list \<Rightarrow> real list" where
  "sorted_magnitudes data = map (\<lambda>j. norm (data ! j)) (owl_order data)"

text \<open>
  The bound of the specification, in its words: the output magnitudes, re-sorted in
  descending order, are entry by entry at most the input's sorted magnitudes minus the
  threshold, floored at zero.  (The magnitude of a \<^verbatim>\<open>nan\<close> entry is taken as \<open>0\<close>.)
\<close>

definition owl_claimed_bound :: "'a::real_normed_field list \<Rightarrow> real list \<Rightarrow> 'a option list \<Rightarrow> bool" where
  "owl_claimed_bound data threshold out =
     list_all2 (\<lambda>m b. m \<le> b)
       (rev (sort (map (\<lambda>v. case v of None \<Rightarrow> 0 | Some x \<Rightarrow> norm x) out)))
       (map2 (\<lambda>a t. max 0 (a - t)) (sorted_magnitudes data) threshold)"

text \<open>
  The arguments of \<^verbatim>\<open>OWL.__init__\<close>: \<^verbatim>\<open>alpha\<close> is an array of weights (a float is the
  array of one entry); \<^verbatim>\<open>data_shape\<close> is a number of coefficients or a list of band
  shapes.  \<^verbatim>\<open>_oscar_weights\<close> of \<^verbatim>\<open>pysap.plugins.mri.parallel_mri_online.utils\<close> is not
  under \<^verbatim>\<open>src/\<close> and is a parameter.  The two \<^verbatim>\<open>raise('...')\<close> of the constructor raise a
  string, which Python refuses with \<^verbatim>\<open>TypeError\<close>.

  The mode is compared by identity: \<^verbatim>\<open>self.mode is 'all'\<close>.  A string object is either the
  interned constant of its characters (what a literal such as \<^verbatim>\<open>'all'\<close> evaluates to, in
  any module) or a string built at run time, which can have the same characters and is
  another object.  \<^verbatim>\<open>s is 'all'\<close> holds for the interned constant only.
\<close>

datatype py_str = Interned string | Built string

definition py_is :: "py_str \<Rightarrow> string \<Rightarrow> bool" where
  "py_is s literal = (s = Interned literal)"

datatype owl_weights_val = WeightsArray "real list" | WeightsPerBand "real list list"

datatype data_shape_arg = ShapeSize nat | BandShapes "nat list list"

record owl =
  owl_weights :: owl_weights_val
  mode :: py_str
  band_shape :: "nat list list option"

definition OWL_init ::
  "(real list \<Rightarrow> real \<Rightarrow> data_shape_arg \<Rightarrow> py_error + real list) \<Rightarrow> real list \<Rightarrow> real option
    \<Rightarrow> data_shape_arg option \<Rightarrow> py_str \<Rightarrow> nat \<Rightarrow> py_error + owl" where
  "OWL_init oscar_weights alpha beta data_shape mode_arg n_channel =
     (case beta of
        None \<Rightarrow> Inr \<lparr>owl_weights = WeightsArray alpha, mode = mode_arg, band_shape = None\<rparr>
      | Some b \<Rightarrow>
          (case data_shape of
             None \<Rightarrow> Inl TypeError
           | Some ds \<Rightarrow>
               if py_is mode_arg ''all'' then
                 then_do (oscar_weights alpha b
                            (case ds of
                               ShapeSize n \<Rightarrow> ShapeSize (n * n_channel)
                             | BandShapes bs \<Rightarrow> BandShapes (concat (replicate n_channel bs))))
                   (\<lambda>w. Inr \<lparr>owl_weights = WeightsArray w, mode = mode_arg, band_shape = None\<rparr>)
               else if py_is mode_arg ''band_based'' then
                 (case ds of
                    ShapeSize n \<Rightarrow> Inl TypeError
                  | BandShapes bs \<Rightarrow>
                      then_do (map_patches
                                 (\<lambda>band. oscar_weights alpha b (ShapeSize (n_channel * prod_list band)))
                                 bs)
                        (\<lambda>ws. Inr \<lparr>owl_weights = WeightsPerBand ws, mode = mode_arg,
                                    band_shape = Some bs\<rparr>))
               else if py_is mode_arg ''coeff_based'' then
                 then_do (oscar_weights alpha b (ShapeSize n_channel))
                   (\<lambda>w. Inr \<lparr>owl_weights = WeightsArray w, mode = mode_arg, band_shape = None\<rparr>)
               else Inl TypeError))"

text \<open>
  \<^verbatim>\<open>OWL.op\<close> on the two-dimensional array (channels \<open>\<times>\<close> coefficients) that the solvers
  pass; the rows of the array are its channels.  An array of more than two axes is
  outside the model (\<open>NotImplementedError\<close>).  In mode \<^verbatim>\<open>band_based\<close> the code reads
  \<^verbatim>\<open>self.band_shape\<close>, which only the OSCAR branch of the constructor assigns.  In mode
  \<^verbatim>\<open>coeff_based\<close> a column of a one-channel array is squeezed to a scalar, which
  \<^verbatim>\<open>_prox_owl\<close> cannot index.  With any other mode no branch assigns \<^verbatim>\<open>output\<close>, and
  \<^verbatim>\<open>return output\<close> raises \<^verbatim>\<open>UnboundLocalError\<close>.
\<close>

definition array_rows :: "'a ndarray \<Rightarrow> py_error + 'a list list" where
  "array_rows a =
     (case shape a of
        [] \<Rightarrow> Inl IndexError
      | [n] \<Rightarrow> Inl IndexError
      | [c, n] \<Rightarrow> Inr (map (\<lambda>ch. take n (drop (ch * n) (flat a))) [0..<c])
      | _ \<Rightarrow> Inl NotImplementedError)"

definition scale_threshold :: "owl_weights_val \<Rightarrow> real \<Rightarrow> py_error + real list" where
  "scale_threshold w extra_factor =
     (case w of
        WeightsArray ws \<Rightarrow> Inr (map (\<lambda>x. x * extra_factor) ws)
      | WeightsPerBand _ \<Rightarrow> Inl TypeError)"

fun chunks :: "nat \<Rightarrow> nat \<Rightarrow> 'a list \<Rightarrow> 'a list list" where
  "chunks 0 n xs = []"
| "chunks (Suc c) n xs = take n xs # chunks c n (drop n xs)"

fun owl_band_loop ::
  "complex list list \<Rightarrow> real \<Rightarrow> (nat list \<times> real list) list \<Rightarrow> nat \<Rightarrow> complex option list list
    \<Rightarrow> py_error + complex option list list" where
  "owl_band_loop rows extra_factor [] start output = Inr output"
| "owl_band_loop rows extra_factor ((band_shape_idx, ws) # rest) start output =
     (let n_channel = length rows;
          n_coeffs = prod_list band_shape_idx;
          stop = start + n_coeffs;
          block = concat (map (\<lambda>row. take (stop - start) (drop start row)) rows)
      in if length block \<noteq> n_channel * n_coeffs then Inl ValueError
         else
           then_do (prox_owl block (map (\<lambda>x. x * extra_factor) ws)) (\<lambda>r.
             owl_band_loop rows extra_factor rest stop
               (map2 (\<lambda>out_row new. take start out_row @ new @ drop stop out_row)
                  output (chunks n_channel n_coeffs r))))"

fun owl_coeff_loop ::
  "complex list list \<Rightarrow> real list \<Rightarrow> nat list \<Rightarrow> complex option list list
    \<Rightarrow> py_error + complex option list list" where
  "owl_coeff_loop rows threshold [] output = Inr output"
| "owl_coeff_loop rows threshold (idx # rest) output =
     (if length rows = 1 then Inl IndexError
      else
        then_do (prox_owl (map (\<lambda>row. row ! idx) rows) threshold) (\<lambda>r.
          owl_coeff_loop rows threshold rest
            (map2 (\<lambda>out_row v. out_row[idx := v]) output r)))"

definition OWL_op :: "owl \<Rightarrow> complex ndarray \<Rightarrow> real \<Rightarrow> py_error + complex option ndarray" where
  "OWL_op self data extra_factor =
     (if py_is (mode self) ''all'' then
        then_do (scale_threshold (owl_weights self) extra_factor) (\<lambda>threshold.
        then_do (prox_owl (flat data) threshold) (\<lambda>output.
          Inr \<lparr>shape = [length output], flat = output\<rparr>))
      else if py_is (mode self) ''band_based'' then
        (case shape data of
           [] \<Rightarrow> Inl IndexError
         | _ # _ \<Rightarrow>
             (case band_shape self of
                None \<Rightarrow> Inl (AttributeError ''band_shape'')
              | Some bs \<Rightarrow>
                  (let bands = zip bs (case owl_weights self of
                                         WeightsArray ws \<Rightarrow> map (\<lambda>x. [x]) ws
                                       | WeightsPerBand wss \<Rightarrow> wss)
                   in if bands = [] then Inr \<lparr>shape = shape data, flat = map (\<lambda>x. Some 0) (flat data)\<rparr>
                      else
                        then_do (array_rows data) (\<lambda>rows.
                        then_do (owl_band_loop rows extra_factor bands 0
                                   (map (map (\<lambda>x. Some 0)) rows))
                          (\<lambda>output. Inr \<lparr>shape = shape data, flat = concat output\<rparr>)))))
      else if py_is (mode self) ''coeff_based'' then
        then_do (scale_threshold (owl_weights self) extra_factor) (\<lambda>threshold.
        then_do (array_rows data) (\<lambda>rows.
        then_do (owl_coeff_loop rows threshold [0..<shape data ! 1] (map (map (\<lambda>x. Some 0)) rows))
          (\<lambda>output. Inr \<lparr>shape = shape data, flat = concat output\<rparr>)))
      else Inl (UnboundLocalError ''output''))"

definition OWL_get_cost :: "owl \<Rightarrow> complex ndarray \<Rightarrow> real" where
  "OWL_get_cost self data = 0"

text \<open>
  An instance of the parameter \<^verbatim>\<open>_oscar_weights\<close> for the closed examples: the linearly
  decreasing weights \<open>alpha + beta \<cdot> (size - 1 - i)\<close> of OSCAR, for a scalar \<open>alpha\<close> and an
  integer size.
\<close>

definition oscar_linear :: "real list \<Rightarrow> real \<Rightarrow> data_shape_arg \<Rightarrow> py_error + real list" where
  "oscar_linear alpha beta size_arg =
     (case (alpha, size_arg) of
        ([a], ShapeSize n) \<Rightarrow> Inr (map (\<lambda>i. a + beta * real (n - 1 - i)) [0..<n])
      | _ \<Rightarrow> Inl TypeError)"

section \<open>Properties of the gradient operators\<close>

lemma then_do_Inl [simp]: "then_do (Inl e) f = Inl e"
  by (simp add: then_do_def)

lemma then_do_Inr [simp]: "then_do (Inr v) f = f v"
  by (simp add: then_do_def)

lemma get_grad_Method1:
  "get_grad (Method1 (\<lambda>x. Inr (M x))) (Method1 (\<lambda>d. Inr (Mt d))) self x
     = Inr (self\<lparr>grad := Some (Mt (M x - y self))\<rparr>)"
  by (simp add: get_grad_def)

lemma Grad2DAnalysis_get_grad_eq:
  "Grad2DAnalysis_get_grad self x
     = Inr (self\<lparr>grad := Some (ft_adj_op (ft_cls self) (ft_op (ft_cls self) x - y self))\<rparr>)"
  by (simp add: Grad2DAnalysis_get_grad_def Grad2DAnalysis_MX_def Grad2DAnalysis_MtX_def
      get_grad_def)

lemma Grad2DSynthesis_get_grad_eq:
  "linear_cls self = Some l \<Longrightarrow>
   Grad2DSynthesis_get_grad self alpha
     = Inr (self\<lparr>grad :=
         Some (lin_op l (ft_adj_op (ft_cls self)
           (ft_op (ft_cls self) (lin_adj_op l alpha) - y self)))\<rparr>)"
  by (simp add: Grad2DSynthesis_get_grad_def Grad2DSynthesis_MX_def Grad2DSynthesis_MtX_def
      get_grad_def)

text \<open>
  C1.  \<^verbatim>\<open>GradBase.get_grad\<close> stores \<open>M\<^sup>t (M x - y)\<close> for the analysis and synthesis
  operators (the two lemmas above).  For \<^verbatim>\<open>Grad2DSynthese_Pmri\<close> the claim says that
  \<^verbatim>\<open>get_grad\<close> stores the sum over the channel axis of \<open>M\<^sup>t (M x - y)\<close>; the code calls
  \<^verbatim>\<open>self.MX(x)\<close> with one argument while \<^verbatim>\<open>MX\<close> is declared with two, so for every
  object and every iterate the call raises \<^verbatim>\<open>TypeError\<close> and no gradient is stored.
\<close>

theorem Grad2DSynthese_Pmri_get_grad_raises:
  "Grad2DSynthese_Pmri_get_grad ext self x = Inl TypeError"
  by (simp add: Grad2DSynthese_Pmri_get_grad_def Grad2DSynthese_Pmri_MX_def)

lemma Grad2DAnalysis_init_multi_key:
  "Grad2DAnalysis_init np instantiate data (FtDict (a # b # items)) = Inl ValueError"
  by (simp add: Grad2DAnalysis_init_def)

lemma Grad2DAnalysis_init_single_key:
  "Grad2DAnalysis_init np instantiate data (FtDict [(k, kw)])
     = then_do (instantiate k kw) (\<lambda>f. Grad2DAnalysis_get_spec_rad np
          \<lparr>y = data, analysis = True, ft_cls = f, linear_cls = None,
           spec_rad = None, inv_spec_rad = None, grad = None\<rparr> (1 / 10000) 20 (11 / 10))"
  by (simp add: Grad2DAnalysis_init_def)

lemma Grad2DSynthesis_init_single_key:
  "Grad2DSynthesis_init np instantiate data (FtDict [(k, kw)]) l
     = then_do (instantiate k kw) (\<lambda>f. Grad2DSynthesis_get_spec_rad np
          \<lparr>y = data, analysis = False, ft_cls = f, linear_cls = Some l,
           spec_rad = None, inv_spec_rad = None, grad = None\<rparr> (1 / 10000) 20 (11 / 10))"
  by (simp add: Grad2DSynthesis_init_def)

text \<open>
  C9.  A \<^verbatim>\<open>ft_cls\<close> dict with more than one key must make the construction fail with a
  configuration error.  \<^verbatim>\<open>Grad2DAnalysis\<close> raises \<^verbatim>\<open>ValueError\<close> (lemma
  \<open>Grad2DAnalysis_init_multi_key\<close>); \<^verbatim>\<open>Grad2DSynthesis\<close> evaluates the undefined name
  \<^verbatim>\<open>valueerror\<close> instead, so what the caller gets for every dict of two or more items is
  a \<^verbatim>\<open>NameError\<close>.
\<close>

theorem Grad2DSynthesis_init_multi_key:
  "Grad2DSynthesis_init np instantiate data (FtDict (a # b # items)) l
     = Inl (NameError ''valueerror'')"
  by (simp add: Grad2DSynthesis_init_def)

subsection \<open>The power iteration of get\_spec\_rad\<close>

lemma power_iterate_0 [simp]: "power_iterate A l2 0 x = x"
  by (simp add: power_iterate_def)

lemma power_iterate_Suc: "power_iterate A l2 (Suc k) x = power_iterate A l2 k (A x /\<^sub>R l2 x)"
  by (simp add: power_iterate_def funpow_Suc_right del: funpow.simps)

lemma power_loop_stops:
  assumes "\<And>v. mtmx v = Inr (A v)"
    and "1 \<le> K" and "K \<le> n"
    and "\<forall>k<K. l2 (power_iterate A l2 k x) \<noteq> 0"
    and "\<forall>k. 1 \<le> k \<and> k < K \<longrightarrow>
           \<not> \<bar>l2 (power_iterate A l2 k x) - l2 (power_iterate A l2 (k - 1) x)\<bar> < tol"
    and "K < n \<longrightarrow> \<bar>l2 (power_iterate A l2 K x) - l2 (power_iterate A l2 (K - 1) x)\<bar> < tol"
  shows "power_loop mtmx l2 tol n x x_new = Inr (Some (power_iterate A l2 K x))"
  using assms(2-)
proof (induction n arbitrary: K x x_new)
  case 0
  then show ?case by simp
next
  case (Suc n)
  let ?x1 = "A x /\<^sub>R l2 x"
  note mx = assms(1) [of x]
  from Suc.prems(1,3) have nz: "l2 x \<noteq> 0"
    by (metis power_iterate_0 less_eq_Suc_le One_nat_def)
  show ?case
  proof (cases "K = 1")
    case True
    then have it: "power_iterate A l2 K x = ?x1"
      by (simp add: power_iterate_Suc)
    show ?thesis
    proof (cases "n = 0")
      case True
      then show ?thesis using nz it by (simp add: mx Let_def)
    next
      case False
      with \<open>K = 1\<close> have "K < Suc n" by simp
      with Suc.prems(5) it \<open>K = 1\<close> have "\<bar>l2 ?x1 - l2 x\<bar> < tol" by simp
      then show ?thesis using nz it by (simp add: mx Let_def)
    qed
  next
    case False
    with Suc.prems(1) obtain K' where K': "K = Suc K'" "1 \<le> K'"
      by (cases K) auto
    have go: "\<not> \<bar>l2 ?x1 - l2 x\<bar> < tol"
      using Suc.prems(4) [rule_format, of 1] K' by (simp add: power_iterate_Suc)
    have "power_loop mtmx l2 tol n ?x1 (Some ?x1) = Inr (Some (power_iterate A l2 K' ?x1))"
    proof (rule Suc.IH)
      show "1 \<le> K'" by (rule K')
      show "K' \<le> n" using Suc.prems(2) K' by simp
      show "\<forall>k<K'. l2 (power_iterate A l2 k ?x1) \<noteq> 0"
        using Suc.prems(3) K' by (auto simp: power_iterate_Suc [symmetric])
      show "\<forall>k. 1 \<le> k \<and> k < K' \<longrightarrow>
           \<not> \<bar>l2 (power_iterate A l2 k ?x1) - l2 (power_iterate A l2 (k - 1) ?x1)\<bar> < tol"
      proof (intro allI impI)
        fix k assume k: "1 \<le> k \<and> k < K'"
        then obtain j where j: "k = Suc j" by (cases k) auto
        from Suc.prems(4) [rule_format, of "Suc k"] k K'
        show "\<not> \<bar>l2 (power_iterate A l2 k ?x1) - l2 (power_iterate A l2 (k - 1) ?x1)\<bar> < tol"
          by (simp add: power_iterate_Suc j)
      qed
      show "K' < n \<longrightarrow>
           \<bar>l2 (power_iterate A l2 K' ?x1) - l2 (power_iterate A l2 (K' - 1) ?x1)\<bar> < tol"
      proof
        assume "K' < n"
        from K'(2) obtain j where j: "K' = Suc j" by (cases K') auto
        from Suc.prems(5) \<open>K' < n\<close> K'
        show "\<bar>l2 (power_iterate A l2 K' ?x1) - l2 (power_iterate A l2 (K' - 1) ?x1)\<bar> < tol"
          by (simp add: power_iterate_Suc j)
      qed
    qed
    then show ?thesis
      using nz go K' by (simp add: mx Let_def power_iterate_Suc)
  qed
qed

lemma get_spec_rad_no_iteration:
  "get_spec_rad np (Inr x0) mx mtx self tol 0 coef = Inl (UnboundLocalError ''x_new'')"
  by (simp add: get_spec_rad_def)

lemma sqrt_25: "sqrt 25 = 5"
  by (rule real_sqrt_unique) simp_all

lemma l2_vec2_start: "l2_vec2 (Vec2 3 4) = 5"
  using sqrt_25 by simp

lemma l2_vec2_first: "l2_vec2 (Vec2 (48/5) (36/5)) = 12"
proof -
  have "sqrt ((48/5)\<^sup>2 + (36/5)\<^sup>2) = (12::real)"
    by (rule real_sqrt_unique) (simp_all add: power2_eq_square)
  then show ?thesis by simp
qed

lemma vec2_first_iterate: "diag_4_3 (diag_4_3 (Vec2 3 4)) /\<^sub>R 5 = Vec2 (48/5) (36/5)"
  by simp

lemma vec2_second_iterate: "diag_4_3 (diag_4_3 (Vec2 (48/5) (36/5))) /\<^sub>R 12 = Vec2 (64/5) (27/5)"
  by simp

lemma l2_vec2_second: "l2_vec2 (Vec2 (64/5) (27/5)) = sqrt 4825 / 5"
proof -
  have "(64/5)\<^sup>2 + (27/5)\<^sup>2 = (4825::real) / 5\<^sup>2"
    by (simp add: power2_eq_square)
  then have "sqrt ((64/5)\<^sup>2 + (27/5)\<^sup>2) = sqrt 4825 / 5"
    by (simp only: real_sqrt_divide real_sqrt_abs)
  then show ?thesis by simp
qed

lemma get_spec_rad_vec2_code:
  "Grad2DAnalysis_get_spec_rad np_vec2 grad_vec2 2 2 (11 / 10)
     = Inr (grad_vec2\<lparr>spec_rad := Some (11 / 10 * (sqrt 4825 / 5)),
         inv_spec_rad := Some (1 / (11 / 10 * (sqrt 4825 / 5)))\<rparr>)"
  apply (simp add: Grad2DAnalysis_get_spec_rad_def get_spec_rad_def Grad2DAnalysis_get_initial_x_def
      Grad2DAnalysis_MX_def Grad2DAnalysis_MtX_def MtMX_def np_vec2_def grad_vec2_def ft_diag_4_3_def
      numeral_2_eq_2 Let_def l2_vec2_start l2_vec2_first l2_vec2_second vec2_first_iterate vec2_second_iterate del: l2_vec2.simps)
  done


lemma get_spec_rad_vec2_relative:
  "get_spec_rad_relative np_vec2 (Grad2DAnalysis_get_initial_x np_vec2 grad_vec2)
      (Grad2DAnalysis_MX grad_vec2) (Grad2DAnalysis_MtX grad_vec2) grad_vec2 2 2 (11 / 10)
     = Inr (grad_vec2\<lparr>spec_rad := Some (66 / 5), inv_spec_rad := Some (5 / 66)\<rparr>)"
  by (simp add: get_spec_rad_relative_def Grad2DAnalysis_get_initial_x_def
      Grad2DAnalysis_MX_def Grad2DAnalysis_MtX_def MtMX_def np_vec2_def grad_vec2_def ft_diag_4_3_def
      numeral_2_eq_2 Let_def l2_vec2_start l2_vec2_first del: l2_vec2.simps)

lemma power_iterate_vec2_1: "power_iterate (\<lambda>v. diag_4_3 (diag_4_3 v)) l2_vec2 (Suc 0) (Vec2 3 4) = Vec2 (48/5) (36/5)"
  by (simp add: power_iterate_def l2_vec2_start del: l2_vec2.simps)

text \<open>
  C2 (amended).  \<^verbatim>\<open>get_spec_rad(tolerance, max_iter, coef_mul)\<close> is a power iteration:
  from the vector \<open>x0\<close> returned by \<^verbatim>\<open>get_initial_x\<close> it replaces \<open>x\<close> by \<open>MtMX(x)\<close> divided
  by the L2 norm of \<open>x\<close>.  It stops at the first iterate \<open>K \<ge> 1\<close> whose norm differs from
  the norm of the previous iterate by less than \<open>tolerance\<close> in \<^emph>\<open>absolute\<close> value, or at
  \<open>K = max_iter\<close> when there is none; it then sets \<open>spec_rad\<close> to \<open>coef_mul\<close> times the norm
  of iterate \<open>K\<close> and \<open>inv_spec_rad\<close> to \<open>1 / spec_rad\<close>.  The statement is for
  \<open>max_iter \<ge> 1\<close>, operators that do not raise, and norms that are not zero where the
  code divides by them.
\<close>

theorem get_spec_rad_absolute_rule:
  assumes "get_initial_x = Inr x0"
    and "\<And>v. call1 mx v = Inr (M v)"
    and "\<And>d. call1 mtx d = Inr (Mt d)"
    and "1 \<le> K" and "K \<le> max_iter"
    and "\<forall>k<K. generic_l2_norm np (power_iterate (\<lambda>v. Mt (M v)) (generic_l2_norm np) k x0) \<noteq> 0"
    and "\<forall>k. 1 \<le> k \<and> k < K \<longrightarrow>
           \<not> \<bar>generic_l2_norm np (power_iterate (\<lambda>v. Mt (M v)) (generic_l2_norm np) k x0)
              - generic_l2_norm np (power_iterate (\<lambda>v. Mt (M v)) (generic_l2_norm np) (k - 1) x0)\<bar>
             < tolerance"
    and "K < max_iter \<longrightarrow>
           \<bar>generic_l2_norm np (power_iterate (\<lambda>v. Mt (M v)) (generic_l2_norm np) K x0)
              - generic_l2_norm np (power_iterate (\<lambda>v. Mt (M v)) (generic_l2_norm np) (K - 1) x0)\<bar>
             < tolerance"
    and "coef_mul * generic_l2_norm np (power_iterate (\<lambda>v. Mt (M v)) (generic_l2_norm np) K x0) \<noteq> 0"
  shows "get_spec_rad np get_initial_x mx mtx self tolerance max_iter coef_mul
     = Inr (self\<lparr>
         spec_rad := Some (coef_mul *
           generic_l2_norm np (power_iterate (\<lambda>v. Mt (M v)) (generic_l2_norm np) K x0)),
         inv_spec_rad := Some (1 / (coef_mul *
           generic_l2_norm np (power_iterate (\<lambda>v. Mt (M v)) (generic_l2_norm np) K x0)))\<rparr>)"
proof -
  have mtmx: "\<And>v. MtMX mx mtx v = Inr (Mt (M v))"
    by (simp add: MtMX_def assms(2,3))
  have "power_loop (MtMX mx mtx) (generic_l2_norm np) tolerance max_iter x0 None
          = Inr (Some (power_iterate (\<lambda>v. Mt (M v)) (generic_l2_norm np) K x0))"
    by (rule power_loop_stops [OF mtmx assms(4-8)])
  then show ?thesis
    using assms(9) by (simp add: get_spec_rad_def assms(1) Let_def)
qed

theorem get_spec_rad_absolute_rule_witness:
  "get_spec_rad np_vec2 (Grad2DAnalysis_get_initial_x np_vec2 grad_vec2)
      (Grad2DAnalysis_MX grad_vec2) (Grad2DAnalysis_MtX grad_vec2) grad_vec2 10 20 (11 / 10)
     = Inr (grad_vec2\<lparr>spec_rad := Some (66 / 5), inv_spec_rad := Some (5 / 66)\<rparr>)"
  using get_spec_rad_absolute_rule [of "Grad2DAnalysis_get_initial_x np_vec2 grad_vec2" "Vec2 3 4"
      "Grad2DAnalysis_MX grad_vec2" diag_4_3 "Grad2DAnalysis_MtX grad_vec2" diag_4_3 1 20 np_vec2
      10 "11 / 10" grad_vec2]
  by (simp add: Grad2DAnalysis_get_initial_x_def Grad2DAnalysis_MX_def Grad2DAnalysis_MtX_def
      np_vec2_def grad_vec2_def ft_diag_4_3_def power_iterate_vec2_1 l2_vec2_start l2_vec2_first del: l2_vec2.simps)

text \<open>
  The claim as stated has the loop stop on the \<^emph>\<open>relative\<close> change of the norm.  For the
  forward operator \<open>diag(4, 3)\<close>, the start \<open>(3, 4)\<close>, \<open>tolerance = 2\<close> and \<open>max_iter = 2\<close>
  the norms of the iterates are \<open>5\<close>, \<open>12\<close> and \<open>sqrt 4825 / 5\<close>: the relative change of the
  first step is \<open>7/5 < 2\<close> (the rule of the claim stops, \<open>spec_rad = 1.1 * 12\<close>), its absolute
  change is \<open>7 \<ge> 2\<close> (the code goes on, \<open>spec_rad = 1.1 * sqrt 4825 / 5\<close>).
\<close>

theorem get_spec_rad_relative_counterexample:
  "Grad2DAnalysis_get_spec_rad np_vec2 grad_vec2 2 2 (11 / 10)
     \<noteq> get_spec_rad_relative np_vec2 (Grad2DAnalysis_get_initial_x np_vec2 grad_vec2)
         (Grad2DAnalysis_MX grad_vec2) (Grad2DAnalysis_MtX grad_vec2) grad_vec2 2 2 (11 / 10)"
proof -
  have "sqrt 4825 \<noteq> 60"
  proof
    assume "sqrt 4825 = 60"
    then have "(sqrt 4825)\<^sup>2 = 60\<^sup>2" by simp
    then show False by simp
  qed
  then have "11 / 10 * (sqrt 4825 / 5) \<noteq> 66 / 5" by simp
  then show ?thesis
    unfolding get_spec_rad_vec2_code get_spec_rad_vec2_relative by (simp add: grad_vec2_def)
qed

section \<open>Properties of the proximity operators\<close>

subsection \<open>Construction of MultiLevelNuclearNorm\<close>


lemma MultiLevelNuclearNorm_init_length_mismatch:
  "length ws \<noteq> length ps \<Longrightarrow>
   MultiLevelNuclearNorm_init (WeightsList ws) (PatchList ps) lin k = Inl ValueError"
  by (simp add: MultiLevelNuclearNorm_init_def)

lemma MultiLevelNuclearNorm_init_lists:
  "length ws = length ps \<Longrightarrow>
   MultiLevelNuclearNorm_init (WeightsList (w # ws)) (PatchList (p # ps)) lin k
     = Inr \<lparr>weights = w, patch_shape = ShapeTuple p, overlapping_factor = k,
            scale_weights = w # ws, scale_patch_shape = map ShapeTuple (p # ps),
            linear_op = lin\<rparr>"
  by (simp add: MultiLevelNuclearNorm_init_def weights_item0_def patch_shape_item0_def
      NuclearNorm_init_def nuclear_norm.extend_def)

lemma MultiLevelNuclearNorm_init_broadcast_patch_shape:
  "MultiLevelNuclearNorm_init (WeightsList (w # ws)) (PatchTuple (d # t)) lin k
     = Inr \<lparr>weights = w, patch_shape = ShapeInt d, overlapping_factor = k,
            scale_weights = w # ws,
            scale_patch_shape = replicate (Suc (length ws)) (ShapeTuple (d # t)),
            linear_op = lin\<rparr>"
  by (simp add: MultiLevelNuclearNorm_init_def weights_item0_def patch_shape_item0_def
      NuclearNorm_init_def nuclear_norm.extend_def)

text \<open>
  C8.  Lists of different lengths are refused with \<^verbatim>\<open>ValueError\<close>
  (\<open>MultiLevelNuclearNorm_init_length_mismatch\<close>), non-empty lists of equal lengths are
  paired per scale (\<open>MultiLevelNuclearNorm_init_lists\<close>), and a single patch shape is
  broadcast over a list of weights (\<open>MultiLevelNuclearNorm_init_broadcast_patch_shape\<close>).
  A single scalar weight is broadcast too, but the constructor then passes \<^verbatim>\<open>weights[0]\<close>
  to \<^verbatim>\<open>NuclearNorm.__init__\<close>: indexing a float raises \<^verbatim>\<open>TypeError\<close>, so the construction
  fails whenever the weight is a scalar, with a list of patch shapes as with a single
  one.
\<close>

theorem MultiLevelNuclearNorm_init_scalar_weight_raises:
  "MultiLevelNuclearNorm_init (WeightsFloat w) (PatchList ps) lin k = Inl TypeError
   \<and> MultiLevelNuclearNorm_init (WeightsFloat w) (PatchTuple t) (Some l) k = Inl TypeError"
  by (simp add: MultiLevelNuclearNorm_init_def weights_item0_def)

subsection \<open>NuclearNorm on a single patch\<close>

lemma moveaxis_0_last_Cons:
  "shape a = c # rest \<Longrightarrow>
   moveaxis_0_last a = Inr \<lparr>shape = rest @ [c],
      flat = map (\<lambda>i. flat a ! ((i mod c) * prod_list rest + i div c)) [0..<c * prod_list rest]\<rparr>"
  by (simp add: moveaxis_0_last_def)

text \<open>
  C4.  The claim is that an input whose trailing shape is the configured patch shape is
  processed as one patch (reshaped to pixels \<open>\<times>\<close> channels, shrunk, recomposed).
  \<^verbatim>\<open>NuclearNorm.op\<close> does reshape the data to \<^verbatim>\<open>(np.prod(patch_shape), channels)\<close>, but
  \<^verbatim>\<open>_prox_nuclear_norm\<close> reshapes that matrix again to
  \<^verbatim>\<open>(np.prod(patch_shape[:-1]), channels)\<close>, which has another size unless the last
  patch dimension is 1: for every non-empty input of a patch shape \<open>(..., d)\<close> with
  \<open>d \<noteq> 1\<close> the call raises \<^verbatim>\<open>ValueError\<close> before any singular value is computed.
\<close>

theorem NuclearNorm_op_single_patch_raises:
  assumes ps: "patch_shape self = ShapeTuple ps"
    and sh: "shape data = c # ps"
    and len: "2 \<le> length ps"
    and last: "last ps \<noteq> 1"
    and pos: "0 < c" "0 \<notin> set ps"
  shows "NuclearNorm_op env self data extra_factor num_cores = Inl ValueError"
proof -
  from len have ne: "ps \<noteq> []" "butlast ps \<noteq> []"
    by (cases ps; cases "tl ps"; auto)+
  have split: "prod_list ps = prod_list (butlast ps) * last ps"
    using ne(1) by (metis append_butlast_last_id prod_list.append prod_list.Cons prod_list.Nil mult.right_neutral)
  have "0 < prod_list (butlast ps)"
    using pos(2) by (metis in_set_butlastD prod_list_zero_iff gr0I)
  moreover have "last ps \<noteq> 0" using pos(2) ne(1) last_in_set by metis
  ultimately have neq: "prod_list (butlast ps) * c \<noteq> c * prod_list ps"
    using last pos(1) by (simp add: split)
  show ?thesis
    using neq ne
    by (simp add: NuclearNorm_op_def ps sh moveaxis_0_last_Cons [OF sh] np_reshape_def
        prox_nuclear_norm_def patch_matrix_shape_def Let_def)
qed

theorem NuclearNorm_op_single_patch_raises_witness:
  "NuclearNorm_op utils_1x1 (NuclearNorm_init 1 (ShapeTuple [2, 2]) 1)
     \<lparr>shape = [2, 2, 2], flat = [1, 2, 3, 4, 5, 6, 7, 8]\<rparr> 1 1 = Inl ValueError"
  using NuclearNorm_op_single_patch_raises [of "NuclearNorm_init 1 (ShapeTuple [2, 2]) 1" "[2, 2]"
      "\<lparr>shape = [2, 2, 2], flat = [1, 2, 3, 4, 5, 6, 7, 8]\<rparr>" 2 utils_1x1 1 1]
  by (simp add: NuclearNorm_init_def)

subsection \<open>The attributes that op and get\_cost assign\<close>

lemma MultiLevelNuclearNorm_op_loop_frame:
  "MultiLevelNuclearNorm_op_loop env self zs ef nc acc = (self', res) \<Longrightarrow>
   \<exists>w p. self' = self\<lparr>weights := w, patch_shape := p\<rparr>"
proof (induction zs arbitrary: self acc)
  case Nil
  then have "self' = self\<lparr>weights := weights self, patch_shape := patch_shape self\<rparr>"
    by simp
  then show ?case by blast
next
  case (Cons z zs)
  obtain b w p where z: "z = (b, w, p)" by (cases z) auto
  show ?case
  proof (cases "NuclearNorm_op env (self\<lparr>weights := w, patch_shape := p\<rparr>) b ef nc")
    case (Inl e)
    with Cons.prems z have "self' = self\<lparr>weights := w, patch_shape := p\<rparr>"
      by (simp add: Let_def)
    then show ?thesis by blast
  next
    case (Inr r)
    with Cons.prems z
    have "MultiLevelNuclearNorm_op_loop env (self\<lparr>weights := w, patch_shape := p\<rparr>) zs ef nc
            (acc @ [r]) = (self', res)"
      by (simp add: Let_def)
    from Cons.IH [OF this] obtain w' p'
      where "self' = self\<lparr>weights := w, patch_shape := p\<rparr>\<lparr>weights := w', patch_shape := p'\<rparr>"
      by blast
    then have "self' = self\<lparr>weights := w', patch_shape := p'\<rparr>" by simp
    then show ?thesis by blast
  qed
qed

lemma MultiLevelNuclearNorm_op_loop_returns:
  "MultiLevelNuclearNorm_op_loop env self zs ef nc acc = (self', Inr r) \<Longrightarrow> zs \<noteq> [] \<Longrightarrow>
   weights self' = fst (snd (last zs)) \<and> patch_shape self' = snd (snd (last zs))"
proof (induction zs arbitrary: self acc)
  case Nil
  then show ?case by simp
next
  case (Cons z zs)
  obtain b w p where z: "z = (b, w, p)" by (cases z) auto
  show ?case
  proof (cases "NuclearNorm_op env (self\<lparr>weights := w, patch_shape := p\<rparr>) b ef nc")
    case (Inl e)
    with Cons.prems z show ?thesis by (simp add: Let_def)
  next
    case (Inr x)
    with Cons.prems z
    have step: "MultiLevelNuclearNorm_op_loop env (self\<lparr>weights := w, patch_shape := p\<rparr>) zs ef nc
            (acc @ [x]) = (self', Inr r)"
      by (simp add: Let_def)
    show ?thesis
    proof (cases "zs = []")
      case True
      with step z show ?thesis by auto
    next
      case False
      with Cons.IH [OF step] show ?thesis by simp
    qed
  qed
qed

lemma MultiLevelNuclearNorm_get_cost_loop_frame:
  "MultiLevelNuclearNorm_get_cost_loop env self zs ef nc acc = (self', res) \<Longrightarrow>
   \<exists>w p. self' = self\<lparr>weights := w, patch_shape := p\<rparr>"
proof (induction zs arbitrary: self acc)
  case Nil
  then have "self' = self\<lparr>weights := weights self, patch_shape := patch_shape self\<rparr>"
    by simp
  then show ?case by blast
next
  case (Cons z zs)
  obtain b w p where z: "z = (b, w, p)" by (cases z) auto
  show ?case
  proof (cases "NuclearNorm_get_cost env (self\<lparr>weights := w, patch_shape := p\<rparr>) b ef nc")
    case (Inl e)
    with Cons.prems z have "self' = self\<lparr>weights := w, patch_shape := p\<rparr>"
      by (simp add: Let_def)
    then show ?thesis by blast
  next
    case (Inr r)
    with Cons.prems z
    have "MultiLevelNuclearNorm_get_cost_loop env (self\<lparr>weights := w, patch_shape := p\<rparr>) zs ef nc
            (acc + r) = (self', res)"
      by (simp add: Let_def)
    from Cons.IH [OF this] obtain w' p'
      where "self' = self\<lparr>weights := w, patch_shape := p\<rparr>\<lparr>weights := w', patch_shape := p'\<rparr>"
      by blast
    then have "self' = self\<lparr>weights := w', patch_shape := p'\<rparr>" by simp
    then show ?thesis by blast
  qed
qed

lemma MultiLevelNuclearNorm_get_cost_loop_returns:
  "MultiLevelNuclearNorm_get_cost_loop env self zs ef nc acc = (self', Inr r) \<Longrightarrow> zs \<noteq> [] \<Longrightarrow>
   weights self' = fst (snd (last zs)) \<and> patch_shape self' = snd (snd (last zs))"
proof (induction zs arbitrary: self acc)
  case Nil
  then show ?case by simp
next
  case (Cons z zs)
  obtain b w p where z: "z = (b, w, p)" by (cases z) auto
  show ?case
  proof (cases "NuclearNorm_get_cost env (self\<lparr>weights := w, patch_shape := p\<rparr>) b ef nc")
    case (Inl e)
    with Cons.prems z show ?thesis by (simp add: Let_def)
  next
    case (Inr x)
    with Cons.prems z
    have step: "MultiLevelNuclearNorm_get_cost_loop env (self\<lparr>weights := w, patch_shape := p\<rparr>) zs ef nc
            (acc + x) = (self', Inr r)"
      by (simp add: Let_def)
    show ?thesis
    proof (cases "zs = []")
      case True
      with step z show ?thesis by auto
    next
      case False
      with Cons.IH [OF step] show ?thesis by simp
    qed
  qed
qed

lemma last_zip3:
  assumes "zip bs (zip ws ps) \<noteq> []"
  shows "snd (last (zip bs (zip ws ps)))
     = (ws ! (min (length bs) (min (length ws) (length ps)) - 1),
        ps ! (min (length bs) (min (length ws) (length ps)) - 1))"
proof -
  let ?n = "min (length bs) (min (length ws) (length ps))"
  have len: "length (zip bs (zip ws ps)) = ?n" by simp
  with assms have "0 < ?n" by (metis length_greater_0_conv)
  then have "last (zip bs (zip ws ps)) = zip bs (zip ws ps) ! (?n - 1)"
    using assms len by (metis last_conv_nth)
  also have "\<dots> = (bs ! (?n - 1), ws ! (?n - 1), ps ! (?n - 1))"
  proof -
    have "?n - 1 < length bs" "?n - 1 < length ws" "?n - 1 < length ps"
      using \<open>0 < ?n\<close> by linarith+
    then show ?thesis by simp
  qed
  finally show ?thesis by simp
qed

lemma two_scales_init:
  "MultiLevelNuclearNorm_init (WeightsList [1, 2]) (PatchList [[1, 1], [1, 1]]) (Some linear_1x1) 1
     = Inr two_scales"
  by (simp add: MultiLevelNuclearNorm_init_def weights_item0_def patch_shape_item0_def
      NuclearNorm_init_def nuclear_norm.extend_def two_scales_def)

lemma NuclearNorm_op_1x1_band1:
  "NuclearNorm_op utils_1x1 (two_scales\<lparr>weights := 1, patch_shape := ShapeTuple [1, 1]\<rparr>)
      \<lparr>shape = [1, 1, 1], flat = [3]\<rparr> 1 1
     = Inr \<lparr>shape = [1, 1], flat = [2]\<rparr>"
  by (simp add: NuclearNorm_op_def moveaxis_0_last_def np_reshape_def prox_nuclear_norm_def
        patch_matrix_shape_def utils_1x1_def svd_1x1_def shrink_singular_values_def
        np_mul_columns_def np_dot_def moveaxis_last_0_def Let_def two_scales_def eps32_def)

lemma NuclearNorm_op_1x1_band2:
  "NuclearNorm_op utils_1x1 (two_scales\<lparr>weights := 2, patch_shape := ShapeTuple [1, 1]\<rparr>)
      \<lparr>shape = [1, 1, 1], flat = [4]\<rparr> 1 1
     = Inr \<lparr>shape = [1, 1], flat = [2]\<rparr>"
  by (simp add: NuclearNorm_op_def moveaxis_0_last_def np_reshape_def prox_nuclear_norm_def
        patch_matrix_shape_def utils_1x1_def svd_1x1_def shrink_singular_values_def
        np_mul_columns_def np_dot_def moveaxis_last_0_def Let_def two_scales_def eps32_def)

lemma two_scales_op:
  "MultiLevelNuclearNorm_op utils_1x1 two_scales \<lparr>shape = [1, 2], flat = [3, 4]\<rparr> 1 1
     = (two_scales\<lparr>weights := 2\<rparr>, Inr [[2], [2]])"
proof -
  have sw: "scale_weights two_scales = [1, 2]"
    and sp: "scale_patch_shape two_scales = [ShapeTuple [1, 1], ShapeTuple [1, 1]]"
    and lo: "linear_op two_scales = Some linear_1x1"
    by (simp_all add: two_scales_def)
  have bands: "reshape_coeff_channel linear_1x1 \<lparr>shape = [1, 2], flat = [3, 4]\<rparr>
      = [\<lparr>shape = [1, 1, 1], flat = [3]\<rparr>, \<lparr>shape = [1, 1, 1], flat = [4]\<rparr>]"
    and unb: "\<And>bs. reshape_channel_coeff linear_1x1 bs = bs"
    and flt: "flatten linear_1x1 = flat"
    by (simp_all add: linear_1x1_def)
  have upd: "two_scales\<lparr>weights := 1, patch_shape := ShapeTuple [1, 1]\<rparr>
      \<lparr>weights := 2, patch_shape := ShapeTuple [1, 1]\<rparr>
      = two_scales\<lparr>weights := 2, patch_shape := ShapeTuple [1, 1]\<rparr>"
    by simp
  have fin: "two_scales\<lparr>weights := 2, patch_shape := ShapeTuple [1, 1]\<rparr> = two_scales\<lparr>weights := 2\<rparr>"
    by (simp add: two_scales_def)
  show ?thesis
    by (simp only: MultiLevelNuclearNorm_op_def sw sp lo bands unb flt option.case
        zip_Cons_Cons zip_Nil MultiLevelNuclearNorm_op_loop.simps Let_def upd
        NuclearNorm_op_1x1_band1 NuclearNorm_op_1x1_band2 sum.case prod.case append.simps
        list.map ndarray.simps)
      (simp only: fin)
qed

text \<open>
  C7 (amended).  The \<^verbatim>\<open>op\<close> and \<^verbatim>\<open>get_cost\<close> of \<^verbatim>\<open>NuclearNorm\<close>, \<^verbatim>\<open>GroupLasso\<close>,
  \<^verbatim>\<open>OWL\<close> and \<^verbatim>\<open>k_support_norm\<close> assign no attribute (their models return a result and
  no object).  \<^verbatim>\<open>MultiLevelNuclearNorm.op\<close> and \<^verbatim>\<open>get_cost\<close> leave the per-scale
  configuration \<^verbatim>\<open>_weights\<close>, \<^verbatim>\<open>_patch_shape\<close>, the overlapping factor and the linear
  operator as they are, but they assign \<^verbatim>\<open>self.weights\<close> and \<^verbatim>\<open>self.patch_shape\<close> once
  per scale: after a call that returns, the two attributes hold the weight and the
  patch shape of the last scale processed (scale \<open>n\<close>, the smallest of the numbers of
  bands, weights and patch shapes), and their values from before the call only when no
  scale was processed.
\<close>

theorem MultiLevelNuclearNorm_frame:
  assumes "linear_op self = Some lin"
    and "MultiLevelNuclearNorm_op env self c ef nc = (self', Inr r)
       \<or> MultiLevelNuclearNorm_get_cost env self c ef nc = (self', Inr cost)"
  shows "scale_weights self' = scale_weights self
     \<and> scale_patch_shape self' = scale_patch_shape self
     \<and> overlapping_factor self' = overlapping_factor self
     \<and> linear_op self' = linear_op self
     \<and> (let n = min (length (reshape_coeff_channel lin c))
                  (min (length (scale_weights self)) (length (scale_patch_shape self)))
        in if n = 0 then weights self' = weights self \<and> patch_shape self' = patch_shape self
           else weights self' = scale_weights self ! (n - 1)
              \<and> patch_shape self' = scale_patch_shape self ! (n - 1))"
proof -
  let ?zs = "zip (reshape_coeff_channel lin c) (zip (scale_weights self) (scale_patch_shape self))"
  let ?n = "min (length (reshape_coeff_channel lin c))
              (min (length (scale_weights self)) (length (scale_patch_shape self)))"
  have n: "length ?zs = ?n" by simp
  from assms(2) consider
      (op) pc where "MultiLevelNuclearNorm_op_loop env self ?zs ef nc [] = (self', Inr pc)"
    | (get_cost) "MultiLevelNuclearNorm_get_cost_loop env self ?zs ef nc 0 = (self', Inr cost)"
    by (auto simp: MultiLevelNuclearNorm_op_def MultiLevelNuclearNorm_get_cost_def assms(1)
        split: prod.splits sum.splits)
  note loops = this
  have frame: "\<exists>w p. self' = self\<lparr>weights := w, patch_shape := p\<rparr>"
    using loops
    by cases (erule MultiLevelNuclearNorm_op_loop_frame MultiLevelNuclearNorm_get_cost_loop_frame)+
  have ret: "weights self' = fst (snd (last ?zs)) \<and> patch_shape self' = snd (snd (last ?zs))"
    if "?zs \<noteq> []"
    using loops that
    by cases (erule MultiLevelNuclearNorm_op_loop_returns MultiLevelNuclearNorm_get_cost_loop_returns,
        assumption)+
  have emp: "self' = self" if "?zs = []"
    using loops unfolding that by cases simp_all
  from frame obtain w p where self': "self' = self\<lparr>weights := w, patch_shape := p\<rparr>"
    by blast
  have last: "?n \<noteq> 0 \<Longrightarrow> weights self' = scale_weights self ! (?n - 1)
       \<and> patch_shape self' = scale_patch_shape self ! (?n - 1)"
  proof -
    assume "?n \<noteq> 0"
    with n have ne: "?zs \<noteq> []" by (metis length_0_conv)
    from ret [OF ne] last_zip3 [OF ne] show ?thesis by simp
  qed
  have first: "?n = 0 \<Longrightarrow> weights self' = weights self \<and> patch_shape self' = patch_shape self"
  proof -
    assume "?n = 0"
    with n have "?zs = []" by (metis length_0_conv)
    from emp [OF this] show ?thesis by simp
  qed
  show ?thesis
    using first last by (simp add: self' Let_def)
qed

theorem MultiLevelNuclearNorm_frame_witness:
  "MultiLevelNuclearNorm_op utils_1x1 two_scales \<lparr>shape = [1, 2], flat = [3, 4]\<rparr> 1 1
     = (two_scales\<lparr>weights := 2\<rparr>, Inr [[2], [2]])
   \<and> scale_weights (two_scales\<lparr>weights := 2\<rparr>) = scale_weights two_scales
   \<and> weights (two_scales\<lparr>weights := 2\<rparr>) = scale_weights two_scales ! 1"
  using MultiLevelNuclearNorm_frame [of two_scales linear_1x1 utils_1x1
      "\<lparr>shape = [1, 2], flat = [3, 4]\<rparr>" 1 1 "two_scales\<lparr>weights := 2\<rparr>" "[[2], [2]]" 0]
    two_scales_op
  by (simp add: two_scales_def linear_1x1_def)

text \<open>
  The claim as stated fails for \<^verbatim>\<open>MultiLevelNuclearNorm\<close>: constructed with the weights
  \<open>[1, 2]\<close> and two patch shapes \<open>(1, 1)\<close>, the operator has \<^verbatim>\<open>weights = 1\<close>; a call of
  \<^verbatim>\<open>op\<close> on two bands returns, and leaves \<^verbatim>\<open>weights = 2\<close>.
\<close>

theorem MultiLevelNuclearNorm_op_changes_weights:
  "MultiLevelNuclearNorm_init (WeightsList [1, 2]) (PatchList [[1, 1], [1, 1]]) (Some linear_1x1) 1
     = Inr two_scales
   \<and> snd (MultiLevelNuclearNorm_op utils_1x1 two_scales \<lparr>shape = [1, 2], flat = [3, 4]\<rparr> 1 1)
     = Inr [[2], [2]]
   \<and> weights (fst (MultiLevelNuclearNorm_op utils_1x1 two_scales
         \<lparr>shape = [1, 2], flat = [3, 4]\<rparr> 1 1)) \<noteq> weights two_scales"
proof -
  have "weights (two_scales\<lparr>weights := 2\<rparr>) \<noteq> weights two_scales"
    by (simp add: two_scales_def)
  then show ?thesis
    by (simp only: two_scales_init two_scales_op fst_conv snd_conv simp_thms)
qed

subsection \<open>k\_support\_norm\<close>

lemma find_alpha_body_first:
  "find_alpha_body self ds (0, l, 0, False, False)
     = (if length ds < 2 then Inl IndexError else Inl (AttributeError ''lmbda''))"
  by (cases ds; cases "tl ds")
    (auto simp: find_alpha_body_def py_index_def k_support_norm_lmbda_def Let_def)

lemma find_alpha_raises:
  "find_alpha self w
     = Some (Inl (if length w < 2 then IndexError else AttributeError ''lmbda''))"
  by (subst find_alpha_def, subst find_alpha_loop.simps)
    (simp add: find_alpha_body_first)

text \<open>
  C6.  The claim describes what \<^verbatim>\<open>k_support_norm.op\<close> is written to compute: the
  breakpoints of \<^verbatim>\<open>_find_alpha\<close>, the factor \<open>\<theta>\<close> of \<^verbatim>\<open>_calc_theta\<close> and the result
  \<open>data \<cdot> \<theta> / (\<theta> + \<lambda>)\<close>.  The code never gets there: the first pass of the loop of
  \<^verbatim>\<open>_find_alpha\<close> reads \<^verbatim>\<open>data_sorted[0]\<close> and \<^verbatim>\<open>data_sorted[1]\<close> and then \<^verbatim>\<open>self.lmbda\<close>,
  an attribute that the constructor does not assign (it stores \<open>\<lambda>\<close> as \<^verbatim>\<open>self.weights\<close>).
  For every object and every one-dimensional input the call returns by raising:
  \<^verbatim>\<open>IndexError\<close> on fewer than two entries, \<^verbatim>\<open>AttributeError\<close> otherwise.
\<close>

theorem k_support_norm_op_raises:
  "k_support_norm_op self data extra_factor
     = Some (Inl (if length data < 2 then IndexError else AttributeError ''lmbda''))"
  by (simp add: k_support_norm_op_def find_alpha_raises)

subsection \<open>The mode of OWL\<close>

lemma OWL_init_oscar_needs_data_shape:
  "OWL_init osc alpha (Some b) None m nch = Inl TypeError"
  by (simp add: OWL_init_def)

lemma OWL_init_oscar_unknown_mode:
  assumes "\<not> py_is m ''all''" and "\<not> py_is m ''band_based''" and "\<not> py_is m ''coeff_based''"
  shows "OWL_init osc alpha (Some b) ds m nch = Inl TypeError"
  using assms by (cases ds) (simp_all add: OWL_init_def)

lemma OWL_op_unknown_mode:
  assumes "\<not> py_is (mode self) ''all''" and "\<not> py_is (mode self) ''band_based''"
    and "\<not> py_is (mode self) ''coeff_based''"
  shows "OWL_op self data ef = Inl (UnboundLocalError ''output'')"
  using assms by (simp add: OWL_op_def)

text \<open>
  C10.  The claim is that a mode outside \<^verbatim>\<open>'all'\<close>, \<^verbatim>\<open>'band_based'\<close>, \<^verbatim>\<open>'coeff_based'\<close>
  makes the construction fail with a configuration error, for any \<^verbatim>\<open>alpha\<close> and any
  \<^verbatim>\<open>beta\<close>, \<^verbatim>\<open>beta=None\<close> included, so that no call of \<^verbatim>\<open>op\<close> is needed to see the error.
  \<^verbatim>\<open>OWL.__init__\<close> has the check, \<^verbatim>\<open>raise('Unknow mode')\<close>, but only inside
  \<^verbatim>\<open>if beta is not None\<close>.  With \<^verbatim>\<open>beta=None\<close> the constructor stores the mode
  unexamined: \<^verbatim>\<open>OWL(alpha, mode='fused')\<close> is constructed for every \<^verbatim>\<open>alpha\<close>,
  \<^verbatim>\<open>data_shape\<close> and number of channels, and the unknown mode is only met by the first
  call of \<^verbatim>\<open>op\<close>, at iteration time.
\<close>

theorem OWL_init_accepts_unknown_mode:
  "OWL_init osc alpha None ds (Interned ''fused'') nch
     = Inr \<lparr>owl_weights = WeightsArray alpha, mode = Interned ''fused'', band_shape = None\<rparr>
   \<and> OWL_op \<lparr>owl_weights = WeightsArray alpha, mode = Interned ''fused'', band_shape = None\<rparr>
         data ef
     = Inl (UnboundLocalError ''output'')"
  by (simp add: OWL_init_def OWL_op_def py_is_def)

subsection \<open>Isotonic regression\<close>

lemma blocks_ok_tl: "blocks_ok (b # bs) \<Longrightarrow> blocks_ok bs"
  by (cases b; cases bs) auto

lemma blocks_ok_hd: "blocks_ok ((s, n) # bs) \<Longrightarrow> 0 < n"
  by (cases bs) auto

lemma pava_push_ok: "0 < n \<Longrightarrow> blocks_ok bs \<Longrightarrow> blocks_ok (pava_push (s, n) bs)"
proof (induction "(s, n)" bs arbitrary: s n rule: pava_push.induct)
  case 1
  then show ?case by simp
next
  case (2 s n s' n' bs)
  show ?case
  proof (cases "s / real n \<le> s' / real n'")
    case True
    have "blocks_ok (pava_push (s + s', n + n') bs)"
      using 2 True blocks_ok_tl by (intro "2.hyps") auto
    with True show ?thesis by simp
  next
    case False
    with 2 show ?thesis by simp
  qed
qed

lemma pava_blocks_ok:
  "blocks_ok bs \<Longrightarrow> blocks_ok (foldl (\<lambda>bs y. pava_push (y, 1) bs) bs ys)"
  by (induction ys arbitrary: bs) (simp_all add: pava_push_ok)

lemma expand_blocks_Cons:
  "expand_blocks ((s, n) # bs) = expand_blocks bs @ replicate n (s / real n)"
  by (simp add: expand_blocks_def)

lemma expand_blocks_Nil [simp]: "expand_blocks [] = []"
  by (simp add: expand_blocks_def)

lemma blocks_ok_below:
  "blocks_ok ((s, n) # bs) \<Longrightarrow> x \<in> set (expand_blocks bs) \<Longrightarrow> x < s / real n"
proof (induction bs arbitrary: s n x)
  case Nil
  then show ?case by simp
next
  case (Cons b bs)
  obtain s' n' where b: "b = (s', n')" by (cases b)
  from Cons.prems b have lt: "s' / real n' < s / real n" and ok: "blocks_ok ((s', n') # bs)"
    by auto
  from Cons.prems(2) b consider "x \<in> set (expand_blocks bs)" | "x = s' / real n'"
    by (auto simp: expand_blocks_Cons)
  then show ?case
  proof cases
    case 1
    from Cons.IH [OF ok 1] lt show ?thesis by simp
  next
    case 2
    with lt show ?thesis by simp
  qed
qed

lemma sorted_expand_blocks: "blocks_ok bs \<Longrightarrow> sorted (expand_blocks bs)"
proof (induction bs)
  case Nil
  then show ?case by simp
next
  case (Cons b bs)
  obtain s n where b: "b = (s, n)" by (cases b)
  have "sorted (expand_blocks bs)"
    using Cons blocks_ok_tl by blast
  moreover have "\<forall>x\<in>set (expand_blocks bs). \<forall>y\<in>set (replicate n (s / real n)). x \<le> y"
    using blocks_ok_below [of s n bs] Cons.prems b by (auto simp: less_imp_le)
  ultimately show ?case
    by (simp add: b expand_blocks_Cons sorted_append)
qed

lemma sorted_pava: "sorted (pava ys)"
  unfolding pava_def pava_blocks_def
  by (rule sorted_expand_blocks, rule pava_blocks_ok) simp


lemma length_expand_pava_push:
  "length (expand_blocks (pava_push (s, n) bs)) = n + length (expand_blocks bs)"
  by (induction "(s, n)" bs arbitrary: s n rule: pava_push.induct)
    (auto simp: expand_blocks_Cons)

lemma length_expand_foldl:
  "length (expand_blocks (foldl (\<lambda>bs y. pava_push (y, 1) bs) bs ys))
     = length (expand_blocks bs) + length ys"
  by (induction ys arbitrary: bs) (simp_all add: length_expand_pava_push)

lemma length_pava [simp]: "length (pava ys) = length ys"
  using length_expand_foldl [of "[]" ys] by (simp add: pava_def pava_blocks_def)

lemma length_isotonic_regression [simp]: "length (isotonic_regression ys) = length ys"
  by (simp add: isotonic_regression_def)

lemma pava_push_above:
  assumes "blocks_ok bs" and "\<forall>x\<in>set (expand_blocks bs). x \<le> v"
  shows "expand_blocks (pava_push (v, 1) bs) = expand_blocks bs @ [v]"
proof (cases bs)
  case Nil
  then show ?thesis by (simp add: expand_blocks_def)
next
  case (Cons b bs')
  obtain s' n' where b: "b = (s', n')" by (cases b)
  from assms(1) Cons b have n': "0 < n'" using blocks_ok_hd by blast
  then have "s' / real n' \<in> set (expand_blocks bs)"
    by (simp add: Cons b expand_blocks_Cons)
  with assms(2) have le: "s' / real n' \<le> v" by blast
  show ?thesis
  proof (cases "v \<le> s' / real n'")
    case False
    then show ?thesis by (simp add: Cons b expand_blocks_Cons)
  next
    case True
    with le have eq: "s' / real n' = v" by simp
    with n' have s': "s' = real n' * v" by (simp add: field_simps)
    have mean: "(v + s') / real (1 + n') = v"
      using n' by (simp add: s' field_simps)
    have push: "pava_push (v + s', 1 + n') bs' = (v + s', 1 + n') # bs'"
    proof (cases bs')
      case Nil
      then show ?thesis by simp
    next
      case (Cons c cs)
      obtain s'' n'' where c: "c = (s'', n'')" by (cases c)
      from assms(1) \<open>bs = b # bs'\<close> b Cons c have "s'' / real n'' < s' / real n'" by simp
      with eq mean show ?thesis by (simp add: Cons c)
    qed
    have "expand_blocks (pava_push (v, 1) bs) = expand_blocks ((v + s', 1 + n') # bs')"
      using True push by (simp add: \<open>bs = b # bs'\<close> b)
    also have "\<dots> = expand_blocks bs' @ replicate (1 + n') v"
      using mean by (simp only: expand_blocks_Cons)
    also have "\<dots> = expand_blocks bs' @ replicate n' v @ [v]"
      by (simp add: replicate_append_same)
    also have "\<dots> = expand_blocks bs @ [v]"
      by (simp add: \<open>bs = b # bs'\<close> b expand_blocks_Cons eq)
    finally show ?thesis .
  qed
qed

lemma pava_foldl_sorted:
  "blocks_ok bs \<Longrightarrow> sorted (expand_blocks bs @ ys) \<Longrightarrow>
   expand_blocks (foldl (\<lambda>bs y. pava_push (y, 1) bs) bs ys) = expand_blocks bs @ ys"
proof (induction ys arbitrary: bs)
  case Nil
  then show ?case by simp
next
  case (Cons v ys)
  have above: "\<forall>x\<in>set (expand_blocks bs). x \<le> v"
    using Cons.prems(2) by (auto simp: sorted_append)
  have step: "expand_blocks (pava_push (v, 1) bs) = expand_blocks bs @ [v]"
    by (rule pava_push_above [OF Cons.prems(1) above])
  have ok: "blocks_ok (pava_push (v, 1) bs)"
    by (rule pava_push_ok [OF _ Cons.prems(1)]) simp
  have srt: "sorted (expand_blocks (pava_push (v, 1) bs) @ ys)"
    using Cons.prems(2) by (simp only: step) simp
  have "expand_blocks (foldl (\<lambda>bs y. pava_push (y, 1) bs) (pava_push (v, 1) bs) ys)
          = expand_blocks (pava_push (v, 1) bs) @ ys"
    by (rule Cons.IH [OF ok srt])
  then show ?case by (simp only: foldl_Cons step) simp
qed

lemma pava_sorted_id: "sorted ys \<Longrightarrow> pava ys = ys"
  using pava_foldl_sorted [of "[]" ys] by (simp add: pava_def pava_blocks_def)

lemma isotonic_regression_nonincreasing: "sorted (rev (isotonic_regression ys))"
proof -
  have "sorted_wrt (\<lambda>x y. max 0 x \<le> max 0 y) (pava (rev ys))"
    by (rule sorted_wrt_mono_rel [OF _ sorted_pava]) auto
  then have "sorted (map (max 0) (pava (rev ys)))"
    by (simp add: sorted_map)
  then show ?thesis by (simp add: isotonic_regression_def)
qed

lemma isotonic_regression_nonneg: "x \<in> set (isotonic_regression ys) \<Longrightarrow> 0 \<le> x"
  by (auto simp: isotonic_regression_def)

lemma isotonic_regression_of_nonincreasing:
  "sorted (rev ys) \<Longrightarrow> isotonic_regression ys = map (max 0) ys"
  by (simp add: isotonic_regression_def pava_sorted_id rev_map [symmetric])

subsection \<open>The sort order of prox\_owl\<close>

lemma zip_upt_nth:
  "p \<in> set (zip xs [0..<length xs]) \<Longrightarrow> snd p < length xs \<and> fst p = xs ! snd p"
  by (cases p) (auto simp: set_zip)

lemma set_argsort: "set (argsort xs) = {0..<length xs}"
proof -
  have "set (argsort xs) = snd ` set (zip xs [0..<length xs])"
    by (simp add: argsort_def)
  also have "\<dots> = set (map snd (zip xs [0..<length xs]))"
    by (simp only: set_map)
  also have "map snd (zip xs [0..<length xs]) = [0..<length xs]"
    by (rule map_snd_zip) simp
  finally show ?thesis by simp
qed

lemma length_argsort [simp]: "length (argsort xs) = length xs"
  by (simp add: argsort_def)

lemma distinct_argsort: "distinct (argsort xs)"
  by (rule card_distinct) (simp add: set_argsort)

lemma map_nth_argsort: "map (\<lambda>j. xs ! j) (argsort xs) = map fst (sort_key fst (zip xs [0..<length xs]))"
  unfolding argsort_def map_map
  by (rule map_cong [OF refl]) (auto dest: zip_upt_nth)

lemma sorted_map_nth_argsort: "sorted (map (\<lambda>j. xs ! j) (argsort xs))"
  by (simp add: map_nth_argsort)

lemma scatter_length [simp]: "length (scatter idx j inv_x) = length inv_x"
  by (induction idx arbitrary: j inv_x) simp_all

lemma scatter_other: "i \<notin> set idx \<Longrightarrow> scatter idx j inv_x ! i = inv_x ! i"
  by (induction idx arbitrary: j inv_x) auto

lemma scatter_nth:
  "distinct idx \<Longrightarrow> \<forall>i\<in>set idx. i < length inv_x \<Longrightarrow> m < length idx \<Longrightarrow>
   scatter idx j inv_x ! (idx ! m) = j + m"
proof (induction idx arbitrary: j inv_x m)
  case Nil
  then show ?case by simp
next
  case (Cons i idx)
  show ?case
  proof (cases m)
    case 0
    with Cons.prems show ?thesis by (simp add: scatter_other)
  next
    case (Suc m')
    with Cons.prems have "scatter idx (Suc j) (inv_x[i := j]) ! (idx ! m') = Suc j + m'"
      by (intro Cons.IH) auto
    with Suc show ?thesis by simp
  qed
qed

lemma owl_order_props:
  "set (owl_order data) = {0..<length data}"
  "distinct (owl_order data)"
  "length (owl_order data) = length data"
  by (simp_all add: owl_order_def set_argsort distinct_argsort)

lemma sorted_magnitudes_eq:
  "map (\<lambda>j. map norm data ! j) (owl_order data) = sorted_magnitudes data"
  unfolding sorted_magnitudes_def
  by (rule map_cong [OF refl]) (simp add: owl_order_props)

lemma sorted_magnitudes_nonincreasing: "sorted (rev (sorted_magnitudes data))"
  using sorted_map_nth_argsort [of "map norm data"]
  by (simp add: sorted_magnitudes_eq [symmetric] owl_order_def rev_map)

lemma length_sorted_magnitudes [simp]: "length (sorted_magnitudes data) = length data"
  by (simp add: sorted_magnitudes_def owl_order_props)

lemma owl_inverse_order:
  fixes data :: "'a::real_normed_field list"
  defines "inv_x \<equiv> scatter (owl_order data) 0 (replicate (length (owl_order data)) 0)"
  shows "length inv_x = length data"
    and "m < length data \<Longrightarrow> inv_x ! (owl_order data ! m) = m"
    and "i < length data \<Longrightarrow> inv_x ! i < length data"
proof -
  show len: "length inv_x = length data"
    by (simp add: inv_x_def owl_order_props)
  show nth: "inv_x ! (owl_order data ! m) = m" if "m < length data" for m
    using scatter_nth [of "owl_order data" "replicate (length (owl_order data)) 0" m 0] that
    by (simp add: inv_x_def owl_order_props)
  show "inv_x ! i < length data" if "i < length data"
  proof -
    from that have "i \<in> set (owl_order data)" by (simp add: owl_order_props)
    then obtain m where "m < length (owl_order data)" "owl_order data ! m = i"
      by (auto simp: in_set_conv_nth)
    then show ?thesis using nth [of m] by (simp add: owl_order_props)
  qed
qed

lemma prox_owl_sorted_fit:
  fixes data :: "'a::real_normed_field list"
  assumes nz: "0 \<notin> set data"
    and len: "length threshold = length data \<or> length threshold = 1"
  shows "\<exists>mags z.
      broadcast_sub (sorted_magnitudes data) threshold = Inr z
    \<and> prox_owl data threshold
        = Inr (map2 (\<lambda>d m. Some (d / of_real (norm d) * of_real m)) data mags)
    \<and> length mags = length data
    \<and> list_all (\<lambda>m. 0 \<le> m) mags
    \<and> map (\<lambda>j. mags ! j) (owl_order data) = isotonic_regression z
    \<and> sorted (rev (map (\<lambda>j. mags ! j) (owl_order data)))
    \<and> (sorted (rev z) \<longrightarrow> map (\<lambda>j. mags ! j) (owl_order data) = map (max 0) z)"
proof -
  let ?n = "length data"
  let ?ix = "owl_order data"
  let ?inv = "scatter ?ix 0 (replicate (length ?ix) 0)"
  have "\<exists>z. broadcast_sub (sorted_magnitudes data) threshold = Inr z \<and> length z = ?n"
  proof (cases "length threshold = length data")
    case True
    then show ?thesis by (simp add: broadcast_sub_def)
  next
    case False
    with len have "length threshold = 1" by simp
    with False show ?thesis by (simp add: broadcast_sub_def)
  qed
  then obtain z where z: "broadcast_sub (sorted_magnitudes data) threshold = Inr z"
    and lz: "length z = ?n"
    by blast
  let ?fit = "isotonic_regression z"
  let ?mags = "map (\<lambda>i. ?fit ! i) ?inv"
  have inv: "length ?inv = ?n" "\<And>m. m < ?n \<Longrightarrow> ?inv ! (?ix ! m) = m"
    "\<And>i. i < ?n \<Longrightarrow> ?inv ! i < ?n"
    by (rule owl_inverse_order; assumption)+
  have take: "np_take ?fit ?inv = Inr ?mags"
    using inv(1,3) by (auto simp: np_take_def list_all_length lz)
  have sign: "map2 (\<lambda>d m. if norm d = 0 then None else Some (d / of_real (norm d) * of_real m))
                data ?mags
            = map2 (\<lambda>d m. Some (d / of_real (norm d) * of_real m)) data ?mags"
    using nz by (intro map_cong [OF refl]) (auto dest: set_zip_leftD)
  have run: "prox_owl data threshold
      = Inr (map2 (\<lambda>d m. Some (d / of_real (norm d) * of_real m)) data ?mags)"
    unfolding prox_owl_def Let_def owl_order_def [symmetric] sorted_magnitudes_eq
    by (simp only: z then_do_Inr take sign)
  have order: "map (\<lambda>j. ?mags ! j) ?ix = ?fit"
  proof (rule nth_equalityI)
    show "length (map (\<lambda>j. ?mags ! j) ?ix) = length ?fit"
      by (simp add: owl_order_props lz)
    fix m assume "m < length (map (\<lambda>j. ?mags ! j) ?ix)"
    then have m: "m < ?n" by (simp add: owl_order_props)
    then have "?ix ! m < ?n"
      using owl_order_props(1) [of data] nth_mem [of m ?ix] by (simp add: owl_order_props(3))
    then show "map (\<lambda>j. ?mags ! j) ?ix ! m = ?fit ! m"
      using m inv by (simp add: owl_order_props)
  qed
  have nonneg: "list_all (\<lambda>m. 0 \<le> m) ?mags"
    using inv(1,3) isotonic_regression_nonneg [of _ z]
    by (auto simp: list_all_length lz)
  show ?thesis
  proof (rule exI [of _ ?mags], rule exI [of _ z], intro conjI impI)
    show "broadcast_sub (sorted_magnitudes data) threshold = Inr z"
      by (rule z)
    show "prox_owl data threshold
        = Inr (map2 (\<lambda>d m. Some (d / of_real (norm d) * of_real m)) data ?mags)"
      by (rule run)
    show "length ?mags = length data"
      by (simp add: owl_order_props)
    show "list_all (\<lambda>m. 0 \<le> m) ?mags"
      by (rule nonneg)
    show "map (\<lambda>j. ?mags ! j) ?ix = ?fit"
      by (rule order)
    show "sorted (rev (map (\<lambda>j. ?mags ! j) ?ix))"
      unfolding order by (rule isotonic_regression_nonincreasing)
    assume "sorted (rev z)"
    then show "map (\<lambda>j. ?mags ! j) ?ix = map (max 0) z"
      unfolding order by (rule isotonic_regression_of_nonincreasing)
  qed
qed

lemma prox_owl_5_5:
  "prox_owl [5, 5::real] [4, 1] = Inr [Some (5 / 2), Some (5 / 2)]"
  by (simp add: prox_owl_def argsort_def broadcast_sub_def isotonic_regression_def pava_def
      pava_blocks_def expand_blocks_def np_take_def Let_def)

lemma sorted_magnitudes_5_5: "sorted_magnitudes [5, 5::real] = [5, 5]"
  by (simp add: sorted_magnitudes_def owl_order_def argsort_def)

text \<open>
  C5 (amended).  For every input vector without a zero entry and every threshold that
  is a vector of the same length or a single number, \<^verbatim>\<open>_prox_owl\<close> returns, entry by
  entry, the sign (phase) of the input entry times a non-negative magnitude.  Taken in
  the order of the input's descending magnitudes, these magnitudes are the isotonic
  regression (non-increasing, floored at zero) of the input's sorted magnitudes minus
  the threshold: they form a non-increasing sequence, and when the sorted magnitudes
  minus the threshold are themselves non-increasing (as they are for a single
  threshold) the output magnitudes are exactly that sequence floored at zero.
\<close>

theorem prox_owl_properties:
  fixes data :: "'a::real_normed_field list"
  assumes "0 \<notin> set data"
    and "length threshold = length data \<or> length threshold = 1"
  shows "\<exists>mags z.
      broadcast_sub (sorted_magnitudes data) threshold = Inr z
    \<and> prox_owl data threshold
        = Inr (map2 (\<lambda>d m. Some (d / of_real (norm d) * of_real m)) data mags)
    \<and> length mags = length data
    \<and> list_all (\<lambda>m. 0 \<le> m) mags
    \<and> map (\<lambda>j. mags ! j) (owl_order data) = isotonic_regression z
    \<and> sorted (rev (map (\<lambda>j. mags ! j) (owl_order data)))
    \<and> (sorted (rev z) \<longrightarrow> map (\<lambda>j. mags ! j) (owl_order data) = map (max 0) z)"
  using assms by (rule prox_owl_sorted_fit)

theorem prox_owl_properties_witness:
  "\<exists>mags z.
      broadcast_sub (sorted_magnitudes [3, - 1, 2::real]) [1] = Inr z
    \<and> prox_owl [3, - 1, 2::real] [1]
        = Inr (map2 (\<lambda>d m. Some (d / of_real (norm d) * of_real m)) [3, - 1, 2] mags)
    \<and> length mags = length [3, - 1, 2::real]
    \<and> list_all (\<lambda>m. 0 \<le> m) mags
    \<and> map (\<lambda>j. mags ! j) (owl_order [3, - 1, 2::real]) = isotonic_regression z
    \<and> sorted (rev (map (\<lambda>j. mags ! j) (owl_order [3, - 1, 2::real])))
    \<and> (sorted (rev z) \<longrightarrow> map (\<lambda>j. mags ! j) (owl_order [3, - 1, 2::real]) = map (max 0) z)"
  by (rule prox_owl_properties) simp_all

text \<open>
  The bound of the claim fails for thresholds that make the shifted magnitudes
  increase: the input \<open>(5, 5)\<close> with the thresholds \<open>(4, 1)\<close> has the shifted magnitudes
  \<open>(1, 4)\<close>, which the isotonic regression averages to \<open>(5/2, 5/2)\<close>; the first output
  magnitude \<open>5/2\<close> is above its bound \<open>max (5 - 4) 0 = 1\<close>.
\<close>

theorem prox_owl_bound_counterexample:
  "prox_owl [5, 5::real] [4, 1] = Inr [Some (5 / 2), Some (5 / 2)]
   \<and> \<not> owl_claimed_bound [5, 5::real] [4, 1] [Some (5 / 2), Some (5 / 2)]"
  by (simp add: prox_owl_5_5 owl_claimed_bound_def sorted_magnitudes_5_5)

subsection \<open>A zero extra factor\<close>

lemma GroupLasso_op_zero:
  "shape data \<noteq> [] \<Longrightarrow> GroupLasso_op self data 0 = Inr data"
  by (cases "shape data") (simp_all add: GroupLasso_op_def norm_axis0_def map_nth)

lemma SparseGroupLasso_op_zero:
  "prox_op_l1 data 0 = Inr data \<Longrightarrow> shape data \<noteq> [] \<Longrightarrow>
   SparseGroupLasso_op prox_op_l1 self data 0 = Inr data"
  by (simp add: SparseGroupLasso_op_def GroupLasso_op_zero)

lemma shrink_singular_values_zero:
  "shrink_singular_values 0 s = s"
  by (simp add: shrink_singular_values_def)

lemma broadcast_sub_zero:
  assumes "length threshold = length a \<or> length threshold = 1"
    and "\<forall>t\<in>set threshold. t = 0"
  shows "broadcast_sub a threshold = Inr a"
proof (cases "length threshold = length a")
  case True
  have "map2 (\<lambda>x y. x - y) a threshold = a"
  proof (rule nth_equalityI)
    show "length (map2 (\<lambda>x y. x - y) a threshold) = length a"
      using True by simp
    fix i assume "i < length (map2 (\<lambda>x y. x - y) a threshold)"
    then have i: "i < length a" "i < length threshold" by simp_all
    then have "threshold ! i = 0" using assms(2) nth_mem by blast
    with i show "map2 (\<lambda>x y. x - y) a threshold ! i = a ! i" by simp
  qed
  with True show ?thesis by (simp add: broadcast_sub_def)
next
  case False
  with assms(1) have one: "length threshold = 1" by simp
  then have "threshold \<noteq> []" by auto
  then have "hd threshold = 0" using assms(2) hd_in_set by blast
  with False one show ?thesis by (simp add: broadcast_sub_def)
qed

lemma prox_owl_zero_threshold:
  fixes data :: "'a::real_normed_field list"
  assumes nz: "0 \<notin> set data"
    and len: "length threshold = length data \<or> length threshold = 1"
    and zero: "\<forall>t\<in>set threshold. t = 0"
  shows "prox_owl data threshold = Inr (map Some data)"
proof -
  let ?ix = "owl_order data"
  let ?sm = "sorted_magnitudes data"
  from prox_owl_sorted_fit [OF nz len] obtain mags z where
    z: "broadcast_sub ?sm threshold = Inr z"
    and run: "prox_owl data threshold
        = Inr (map2 (\<lambda>d m. Some (d / of_real (norm d) * of_real m)) data mags)"
    and lm: "length mags = length data"
    and fit: "sorted (rev z) \<longrightarrow> map (\<lambda>j. mags ! j) ?ix = map (max 0) z"
    by blast
  have "broadcast_sub ?sm threshold = Inr ?sm"
    using len zero by (intro broadcast_sub_zero) simp_all
  with z have zs: "z = ?sm" by simp
  have "map (max 0) ?sm = ?sm"
    by (simp add: sorted_magnitudes_def map_idI max_def)
  with fit zs sorted_magnitudes_nonincreasing [of data]
  have eq: "map (\<lambda>j. mags ! j) ?ix = ?sm" by simp
  have mag: "mags ! i = norm (data ! i)" if "i < length data" for i
  proof -
    from that have "i \<in> set ?ix" by (simp add: owl_order_props)
    then obtain m where m: "m < length ?ix" "?ix ! m = i"
      by (auto simp: in_set_conv_nth)
    from eq have "map (\<lambda>j. mags ! j) ?ix ! m = ?sm ! m" by simp
    with m show ?thesis by (simp add: sorted_magnitudes_def)
  qed
  have "map2 (\<lambda>d m. Some (d / of_real (norm d) * of_real m)) data mags = map Some data"
  proof (rule nth_equalityI)
    show "length (map2 (\<lambda>d m. Some (d / of_real (norm d) * of_real m)) data mags)
        = length (map Some data)"
      by (simp add: lm)
    fix i assume "i < length (map2 (\<lambda>d m. Some (d / of_real (norm d) * of_real m)) data mags)"
    then have i: "i < length data" by (simp add: lm)
    then have "data ! i \<noteq> 0" using nz nth_mem by metis
    then show "map2 (\<lambda>d m. Some (d / of_real (norm d) * of_real m)) data mags ! i
        = map Some data ! i"
      using i by (simp add: lm mag)
  qed
  with run show ?thesis by simp
qed

lemma OWL_op_all_zero:
  assumes "py_is (mode self) ''all''" and "owl_weights self = WeightsArray ws"
    and "length ws = length (flat data) \<or> length ws = 1"
    and "0 \<notin> set (flat data)"
  shows "OWL_op self data 0 = Inr \<lparr>shape = [length (flat data)], flat = map Some (flat data)\<rparr>"
proof -
  have "prox_owl (flat data) (map (\<lambda>x. x * 0) ws) = Inr (map Some (flat data))"
    using assms(3,4) by (intro prox_owl_zero_threshold) simp_all
  then show ?thesis
    by (simp add: OWL_op_def assms(1,2) scale_threshold_def)
qed

lemma k_support_norm_op_3_2_1:
  "k_support_norm_op (k_support_norm_init 1 1) [3, 2, 1] 0 = Some (Inl (AttributeError ''lmbda''))"
  by (simp add: k_support_norm_op_def find_alpha_raises)

lemma NuclearNorm_op_2x2_zero:
  "NuclearNorm_op utils_1x1 (NuclearNorm_init 1 (ShapeTuple [2, 2]) 1)
     \<lparr>shape = [2, 2, 2], flat = [1, 2, 3, 4, 5, 6, 7, 8]\<rparr> 0 1 = Inl ValueError"
  by (simp add: NuclearNorm_op_def NuclearNorm_init_def moveaxis_0_last_def np_reshape_def
      prox_nuclear_norm_def patch_matrix_shape_def Let_def)

lemma NuclearNorm_op_1x1_zero:
  "NuclearNorm_op utils_1x1 (NuclearNorm_init 1 (ShapeTuple [1, 1]) 1)
     \<lparr>shape = [1, 1, 1], flat = [3]\<rparr> 0 1 = Inr \<lparr>shape = [1, 1], flat = [3]\<rparr>"
  by (simp add: NuclearNorm_op_def NuclearNorm_init_def moveaxis_0_last_def np_reshape_def
      prox_nuclear_norm_def patch_matrix_shape_def utils_1x1_def svd_1x1_def
      shrink_singular_values_def np_mul_columns_def np_dot_def moveaxis_last_0_def Let_def)

lemma prox_owl_0_2:
  "prox_owl [0, 2::complex] [0] = Inr [None, Some 2]"
  by (simp add: prox_owl_def argsort_def broadcast_sub_def isotonic_regression_def pava_def
      pava_blocks_def expand_blocks_def np_take_def Let_def)

text \<open>
  C3.  The claim is that \<^verbatim>\<open>op(data, extra_factor=0)\<close> returns \<^verbatim>\<open>data\<close> unchanged, for
  every proximity operator.  \<^verbatim>\<open>GroupLasso.op\<close> does (\<open>GroupLasso_op_zero\<close>), and so does
  \<^verbatim>\<open>SparseGroupLasso.op\<close> when the soft threshold it composes with does
  (\<open>SparseGroupLasso_op_zero\<close>).  The other operators do not, each by a defect of its
  own code:
  \<^item> \<^verbatim>\<open>k_support_norm.op\<close> raises \<^verbatim>\<open>AttributeError\<close> on every input of two or more
    entries, because \<^verbatim>\<open>self.lmbda\<close> is never assigned;
  \<^item> \<^verbatim>\<open>NuclearNorm.op\<close> on an input that is a single patch raises \<^verbatim>\<open>ValueError\<close> when
    the last patch dimension is not 1, and otherwise returns the entries in the shape
    (channels, pixels) in place of the shape of the input;
  \<^item> \<^verbatim>\<open>OWL.op\<close> returns \<^verbatim>\<open>nan\<close> at every entry that is zero, because \<^verbatim>\<open>_prox_owl\<close>
    divides the data by its absolute value.
\<close>

theorem zero_extra_factor_not_identity:
  "k_support_norm_op (k_support_norm_init 1 1) [3, 2, 1] 0 = Some (Inl (AttributeError ''lmbda''))
   \<and> NuclearNorm_op utils_1x1 (NuclearNorm_init 1 (ShapeTuple [2, 2]) 1)
        \<lparr>shape = [2, 2, 2], flat = [1, 2, 3, 4, 5, 6, 7, 8]\<rparr> 0 1 = Inl ValueError
   \<and> NuclearNorm_op utils_1x1 (NuclearNorm_init 1 (ShapeTuple [1, 1]) 1)
        \<lparr>shape = [1, 1, 1], flat = [3]\<rparr> 0 1 = Inr \<lparr>shape = [1, 1], flat = [3]\<rparr>
   \<and> OWL_op \<lparr>owl_weights = WeightsArray [1], mode = Interned ''all'', band_shape = None\<rparr>
        \<lparr>shape = [2], flat = [0, 2]\<rparr> 0 = Inr \<lparr>shape = [2], flat = [None, Some 2]\<rparr>"
proof (intro conjI)
  show "k_support_norm_op (k_support_norm_init 1 1) [3, 2, 1] 0
      = Some (Inl (AttributeError ''lmbda''))"
    by (rule k_support_norm_op_3_2_1)
  show "NuclearNorm_op utils_1x1 (NuclearNorm_init 1 (ShapeTuple [2, 2]) 1)
        \<lparr>shape = [2, 2, 2], flat = [1, 2, 3, 4, 5, 6, 7, 8]\<rparr> 0 1 = Inl ValueError"
    by (rule NuclearNorm_op_2x2_zero)
  show "NuclearNorm_op utils_1x1 (NuclearNorm_init 1 (ShapeTuple [1, 1]) 1)
        \<lparr>shape = [1, 1, 1], flat = [3]\<rparr> 0 1 = Inr \<lparr>shape = [1, 1], flat = [3]\<rparr>"
    by (rule NuclearNorm_op_1x1_zero)
  show "OWL_op \<lparr>owl_weights = WeightsArray [1], mode = Interned ''all'', band_shape = None\<rparr>
        \<lparr>shape = [2], flat = [0, 2]\<rparr> 0 = Inr \<lparr>shape = [2], flat = [None, Some 2]\<rparr>"
    by (simp add: OWL_op_def py_is_def scale_threshold_def prox_owl_0_2)
qed

end
